theory Spec2Isabelle
  imports Main "HOL-Library.Sublist"
begin

section \<open>Values, dictionaries and errors\<close>

text \<open>
  The repository keeps every entity as the dictionary that \<open>json.load\<close> produced, so the
  stored records are dynamically typed. \<open>pyval\<close> covers the values of the documented file
  layout: \<open>null\<close>, integers, strings and arrays; booleans, numbers with a fraction and
  nested objects do not occur in it and are left out. A record is a dictionary from field
  names to such values; a key may be absent.
\<close>

datatype pyval = PNone | PInt int | PStr string | PList "pyval list"

type_synonym pydict = "string \<rightharpoonup> pyval"

datatype error = KeyError string | AttributeError | TypeError | FileNotFoundError | JSONDecodeError

text \<open>\<open>d[k]\<close> raises \<open>KeyError\<close> on an absent key; \<open>d.get(k, default)\<close> does not.\<close>

definition getitem :: "pydict \<Rightarrow> string \<Rightarrow> error + pyval" where
  "getitem d k = (case d k of None \<Rightarrow> Inl (KeyError k) | Some v \<Rightarrow> Inr v)"

definition dict_get :: "pydict \<Rightarrow> string \<Rightarrow> pyval \<Rightarrow> pyval" where
  "dict_get d k dflt = (case d k of None \<Rightarrow> dflt | Some v \<Rightarrow> v)"

text \<open>Sequencing of two steps of which the first may raise.\<close>

definition then_do :: "error + 'a \<Rightarrow> ('a \<Rightarrow> error + 'b) \<Rightarrow> error + 'b" where
  "then_do r f = (case r of Inl e \<Rightarrow> Inl e | Inr x \<Rightarrow> f x)"

text \<open>A list is not hashable and cannot be a dictionary key; the other values can.\<close>

fun hashable :: "pyval \<Rightarrow> bool" where
  "hashable (PList xs) = False"
| "hashable v = True"

text \<open>
  \<open>a in b\<close> on two strings is the substring test. \<open>v.lower()\<close> exists on strings only;
  the lowercasing of the Python runtime itself is a parameter \<open>lower\<close> of the model.
\<close>

fun str_in :: "string \<Rightarrow> string \<Rightarrow> bool" where
  "str_in xs [] = (xs = [])"
| "str_in xs (y # ys) = (prefix xs (y # ys) \<or> str_in xs ys)"

definition str_lower :: "(string \<Rightarrow> string) \<Rightarrow> pyval \<Rightarrow> error + string" where
  "str_lower lower v = (case v of PStr s \<Rightarrow> Inr (lower s) | _ \<Rightarrow> Inl AttributeError)"

text \<open>A list comprehension \<open>[f(x) for x in xs]\<close> whose \<open>f\<close> may raise.\<close>

fun comprehension :: "('a \<Rightarrow> error + 'b) \<Rightarrow> 'a list \<Rightarrow> error + 'b list" where
  "comprehension f [] = Inr []"
| "comprehension f (x # xs) =
     then_do (f x) (\<lambda>y. then_do (comprehension f xs) (\<lambda>ys. Inr (y # ys)))"


section \<open>Domain objects (models.py)\<close>

record User =
  u_id :: pyval
  u_fullName :: pyval
  u_email :: pyval
  u_passwordHash :: pyval

record Student = User +
  s_graduateBookNumber :: pyval
  s_group :: pyval

record Teacher = User +
  t_department :: pyval
  t_position :: pyval

record Grade =
  g_id :: pyval
  g_value :: pyval
  g_assessmentType :: pyval
  g_studentId :: pyval
  g_disciplineId :: pyval
  g_teacherId :: pyval
  g_comment :: pyval
  g_date :: pyval

record Discipline =
  d_id :: pyval
  d_name :: pyval
  d_semester :: pyval
  d_assessmentType :: pyval

record Group =
  gr_id :: pyval
  gr_name :: pyval
  gr_specialty :: pyval
  gr_enrollmentYear :: pyval
  gr_studentIds :: pyval

record Search =
  studentName :: string
  disciplineName :: string
  semester :: "int option"
  assessmentType :: string

text \<open>\<open>Search()\<close>: every filter at its default.\<close>

definition Search_default :: Search where
  "Search_default = \<lparr>studentName = [], disciplineName = [], semester = None, assessmentType = []\<rparr>"

text \<open>
  \<open>Grade.__init__\<close>: the date defaults to today's date, \<open>str(datetime.date.today())\<close>,
  which is the parameter \<open>today\<close>.
\<close>

definition Grade_init ::
  "string \<Rightarrow> pyval \<Rightarrow> pyval \<Rightarrow> pyval \<Rightarrow> pyval \<Rightarrow> pyval \<Rightarrow> pyval \<Rightarrow> pyval \<Rightarrow> pyval \<Rightarrow> Grade" where
  "Grade_init today i v a sid did tid c dt =
     \<lparr>g_id = i, g_value = v, g_assessmentType = a, g_studentId = sid, g_disciplineId = did,
      g_teacherId = tid, g_comment = c, g_date = (if dt \<noteq> PNone then dt else PStr today)\<rparr>"

definition Grade_to_dict :: "Grade \<Rightarrow> pydict" where
  "Grade_to_dict g =
     [''id'' \<mapsto> g_id g, ''value'' \<mapsto> g_value g, ''assessmentType'' \<mapsto> g_assessmentType g,
      ''date'' \<mapsto> g_date g, ''comment'' \<mapsto> g_comment g, ''studentId'' \<mapsto> g_studentId g,
      ''disciplineId'' \<mapsto> g_disciplineId g, ''teacherId'' \<mapsto> g_teacherId g]"

definition Grade_from_dict :: "string \<Rightarrow> pydict \<Rightarrow> error + Grade" where
  "Grade_from_dict today data =
     then_do (getitem data ''id'') (\<lambda>i.
     then_do (getitem data ''value'') (\<lambda>v.
     then_do (getitem data ''assessmentType'') (\<lambda>a.
     then_do (getitem data ''studentId'') (\<lambda>sid.
     then_do (getitem data ''disciplineId'') (\<lambda>did.
     then_do (getitem data ''teacherId'') (\<lambda>tid.
       Inr (Grade_init today i v a sid did tid
              (dict_get data ''comment'' (PStr [])) (dict_get data ''date'' PNone))))))))"

definition Student_from_dict :: "pydict \<Rightarrow> error + Student" where
  "Student_from_dict data =
     then_do (getitem data ''id'') (\<lambda>i.
     then_do (getitem data ''fullName'') (\<lambda>n.
     then_do (getitem data ''email'') (\<lambda>e.
     then_do (getitem data ''passwordHash'') (\<lambda>p.
     then_do (getitem data ''graduateBookNumber'') (\<lambda>b.
     then_do (getitem data ''group'') (\<lambda>g.
       Inr \<lparr>u_id = i, u_fullName = n, u_email = e, u_passwordHash = p,
            s_graduateBookNumber = b, s_group = g\<rparr>))))))"

definition Teacher_from_dict :: "pydict \<Rightarrow> error + Teacher" where
  "Teacher_from_dict data =
     then_do (getitem data ''id'') (\<lambda>i.
     then_do (getitem data ''fullName'') (\<lambda>n.
     then_do (getitem data ''email'') (\<lambda>e.
     then_do (getitem data ''passwordHash'') (\<lambda>p.
     then_do (getitem data ''department'') (\<lambda>d.
     then_do (getitem data ''position'') (\<lambda>q.
       Inr \<lparr>u_id = i, u_fullName = n, u_email = e, u_passwordHash = p,
            t_department = d, t_position = q\<rparr>))))))"

definition Discipline_from_dict :: "pydict \<Rightarrow> error + Discipline" where
  "Discipline_from_dict data =
     then_do (getitem data ''id'') (\<lambda>i.
     then_do (getitem data ''name'') (\<lambda>n.
     then_do (getitem data ''semester'') (\<lambda>s.
     then_do (getitem data ''assessmentType'') (\<lambda>a.
       Inr \<lparr>d_id = i, d_name = n, d_semester = s, d_assessmentType = a\<rparr>))))"

text \<open>\<open>Group.__init__\<close> replaces a member list of \<open>None\<close> by the empty list.\<close>

definition Group_init :: "pyval \<Rightarrow> pyval \<Rightarrow> pyval \<Rightarrow> pyval \<Rightarrow> pyval \<Rightarrow> Group" where
  "Group_init i n sp y ids =
     \<lparr>gr_id = i, gr_name = n, gr_specialty = sp, gr_enrollmentYear = y,
      gr_studentIds = (if ids \<noteq> PNone then ids else PList [])\<rparr>"

definition Group_from_dict :: "pydict \<Rightarrow> error + Group" where
  "Group_from_dict data =
     then_do (getitem data ''id'') (\<lambda>i.
     then_do (getitem data ''name'') (\<lambda>n.
     then_do (getitem data ''specialty'') (\<lambda>sp.
     then_do (getitem data ''enrollmentYear'') (\<lambda>y.
       Inr (Group_init i n sp y (dict_get data ''studentIds'' (PList [])))))))"

text \<open>
  \<open>Group.addStudent\<close>: \<open>if student.id not in self._studentIds: self._studentIds.append(student.id)\<close>.
  Membership in a list compares by equality. On a string the test is the substring test
  (a \<open>TypeError\<close> unless the id is a string too) and \<open>append\<close> does not exist; any other
  value is not a container.
\<close>

definition addStudent :: "'a Student_scheme \<Rightarrow> Group \<Rightarrow> error + Group" where
  "addStudent student g =
     (case gr_studentIds g of
        PList ids \<Rightarrow>
          if u_id student \<notin> set ids then Inr (g\<lparr>gr_studentIds := PList (ids @ [u_id student])\<rparr>)
          else Inr g
      | PStr s \<Rightarrow>
          (case u_id student of
             PStr t \<Rightarrow> if \<not> str_in t s then Inl AttributeError else Inr g
           | _ \<Rightarrow> Inl TypeError)
      | _ \<Rightarrow> Inl TypeError)"


section \<open>The repository (repository.py)\<close>

text \<open>
  \<open>_data\<close> holds the five collections, each a list of record dictionaries in storage
  order. The repository object carries \<open>filePath\<close> and \<open>_data\<close>; next to them the state
  holds the files on disk (path to content) and the trace of the file writes made so far.
  The operations take what writes and reads a file's content as the parameters \<open>dump\<close>
  and \<open>load\<close>, over any type \<open>'f\<close> of file contents; the repository's own are \<open>json.dump\<close>
  and \<open>json.load\<close>, modelled in the section on the JSON codec over files of text.
  Directory creation and failures of the storage medium are not modelled.
\<close>

record store =
  students :: "pydict list"
  teachers :: "pydict list"
  disciplines :: "pydict list"
  grades :: "pydict list"
  groups :: "pydict list"

record 'f repo =
  filePath :: string
  data :: store
  files :: "string \<rightharpoonup> 'f"
  writes :: "string list"

subsection \<open>Persistence\<close>

definition saveToJSON :: "(store \<Rightarrow> 'f) \<Rightarrow> string \<Rightarrow> 'f repo \<Rightarrow> 'f repo" where
  "saveToJSON dump path s =
     s\<lparr>files := (files s)(path \<mapsto> dump (data s)), writes := writes s @ [path]\<rparr>"

definition loadFromJSON ::
  "('f \<Rightarrow> error + store) \<Rightarrow> string \<Rightarrow> 'f repo \<Rightarrow> (error + unit) \<times> 'f repo" where
  "loadFromJSON load path s =
     (case files s path of
        None \<Rightarrow> (Inl FileNotFoundError, s)
      | Some content \<Rightarrow>
          (case load content of
             Inl e \<Rightarrow> (Inl e, s)
           | Inr d \<Rightarrow> (Inr (), s\<lparr>data := d\<rparr>)))"

subsection \<open>Adding and removing grades\<close>

definition addGrade :: "(store \<Rightarrow> 'f) \<Rightarrow> Grade \<Rightarrow> 'f repo \<Rightarrow> 'f repo" where
  "addGrade dump grade s =
     saveToJSON dump (filePath s)
       (s\<lparr>data := (data s)\<lparr>grades := grades (data s) @ [Grade_to_dict grade]\<rparr>\<rparr>)"

text \<open>\<open>[g for g in self._data["grades"] if g["id"] != id]\<close>\<close>

fun without_id :: "int \<Rightarrow> pydict list \<Rightarrow> error + pydict list" where
  "without_id i [] = Inr []"
| "without_id i (g # gs) =
     then_do (getitem g ''id'') (\<lambda>v.
     then_do (without_id i gs) (\<lambda>rest. Inr (if v \<noteq> PInt i then g # rest else rest)))"

definition removeGrade :: "(store \<Rightarrow> 'f) \<Rightarrow> int \<Rightarrow> 'f repo \<Rightarrow> (error + bool) \<times> 'f repo" where
  "removeGrade dump i s =
     (let original_len = length (grades (data s)) in
      case without_id i (grades (data s)) of
        Inl e \<Rightarrow> (Inl e, s)
      | Inr kept \<Rightarrow>
          (let s' = s\<lparr>data := (data s)\<lparr>grades := kept\<rparr>\<rparr> in
           if length (grades (data s')) < original_len
           then (Inr True, saveToJSON dump (filePath s') s')
           else (Inr False, s')))"

subsection \<open>Searching\<close>

text \<open>\<open>{r["id"]: r for r in records}\<close>: a later record replaces an earlier one of the same id.\<close>

fun dict_by_id :: "(pyval \<rightharpoonup> pydict) \<Rightarrow> pydict list \<Rightarrow> error + (pyval \<rightharpoonup> pydict)" where
  "dict_by_id m [] = Inr m"
| "dict_by_id m (r # rs) =
     then_do (getitem r ''id'') (\<lambda>k.
     if hashable k then dict_by_id (m(k \<mapsto> r)) rs else Inl TypeError)"

text \<open>\<open>index.get(key, {})\<close>\<close>

definition get_or_empty :: "(pyval \<rightharpoonup> pydict) \<Rightarrow> pyval \<Rightarrow> error + pydict" where
  "get_or_empty index k =
     (if hashable k then Inr (case index k of None \<Rightarrow> Map.empty | Some r \<Rightarrow> r)
      else Inl TypeError)"

text \<open>
  The body of the loop of \<open>findGrades\<close> up to the four \<open>continue\<close> statements: \<open>Inr False\<close>
  when one of them is taken, \<open>Inr True\<close> when the grade reaches \<open>result.append\<close>.
\<close>

definition passes ::
  "(string \<Rightarrow> string) \<Rightarrow> (pyval \<rightharpoonup> pydict) \<Rightarrow> (pyval \<rightharpoonup> pydict) \<Rightarrow> Search \<Rightarrow> pydict
     \<Rightarrow> error + bool" where
  "passes lower studs discs criteria gd =
     then_do (getitem gd ''studentId'') (\<lambda>sid.
     then_do (get_or_empty studs sid) (\<lambda>student.
     then_do (getitem gd ''disciplineId'') (\<lambda>did.
     then_do (get_or_empty discs did) (\<lambda>discipline.
     then_do
       (if studentName criteria \<noteq> []
        then then_do (str_lower lower (dict_get student ''fullName'' (PStr [])))
               (\<lambda>n. Inr (\<not> str_in (lower (studentName criteria)) n))
        else Inr False) (\<lambda>skip1.
     if skip1 then Inr False else
     then_do
       (if disciplineName criteria \<noteq> []
        then then_do (str_lower lower (dict_get discipline ''name'' (PStr [])))
               (\<lambda>n. Inr (\<not> str_in (lower (disciplineName criteria)) n))
        else Inr False) (\<lambda>skip2.
     if skip2 then Inr False else
     if (case semester criteria of
           None \<Rightarrow> False
         | Some n \<Rightarrow> dict_get discipline ''semester'' PNone \<noteq> PInt n)
     then Inr False else
     then_do
       (if assessmentType criteria \<noteq> []
        then then_do (str_lower lower (dict_get gd ''assessmentType'' (PStr [])))
               (\<lambda>a. Inr (lower (assessmentType criteria) \<noteq> a))
        else Inr False) (\<lambda>skip4.
     Inr (\<not> skip4))))))))"

fun findGrades_loop ::
  "(string \<Rightarrow> string) \<Rightarrow> string \<Rightarrow> (pyval \<rightharpoonup> pydict) \<Rightarrow> (pyval \<rightharpoonup> pydict) \<Rightarrow> Search
     \<Rightarrow> Grade list \<Rightarrow> pydict list \<Rightarrow> error + Grade list" where
  "findGrades_loop lower today studs discs criteria result [] = Inr result"
| "findGrades_loop lower today studs discs criteria result (gd # gds) =
     then_do (passes lower studs discs criteria gd) (\<lambda>ok.
     if ok
     then then_do (Grade_from_dict today gd)
            (\<lambda>g. findGrades_loop lower today studs discs criteria (result @ [g]) gds)
     else findGrades_loop lower today studs discs criteria result gds)"

definition findGrades ::
  "(string \<Rightarrow> string) \<Rightarrow> string \<Rightarrow> Search \<Rightarrow> 'f repo \<Rightarrow> (error + Grade list) \<times> 'f repo" where
  "findGrades lower today criteria s =
     (then_do (dict_by_id Map.empty (students (data s))) (\<lambda>studs.
      then_do (dict_by_id Map.empty (disciplines (data s))) (\<lambda>discs.
        findGrades_loop lower today studs discs criteria [] (grades (data s)))),
      s)"

subsection \<open>Getters\<close>

definition getStudents :: "'f repo \<Rightarrow> (error + Student list) \<times> 'f repo" where
  "getStudents s = (comprehension Student_from_dict (students (data s)), s)"

definition getTeachers :: "'f repo \<Rightarrow> (error + Teacher list) \<times> 'f repo" where
  "getTeachers s = (comprehension Teacher_from_dict (teachers (data s)), s)"

definition getDisciplines :: "'f repo \<Rightarrow> (error + Discipline list) \<times> 'f repo" where
  "getDisciplines s = (comprehension Discipline_from_dict (disciplines (data s)), s)"

definition getGroups :: "'f repo \<Rightarrow> (error + Group list) \<times> 'f repo" where
  "getGroups s = (comprehension Group_from_dict (groups (data s)), s)"

text \<open>
  The four accessors by id share one loop: the first record whose id equals the argument
  is deserialized and returned; \<open>None\<close> when the loop ends.
\<close>

fun first_with_id :: "(pydict \<Rightarrow> error + 'a) \<Rightarrow> int \<Rightarrow> pydict list \<Rightarrow> error + 'a option" where
  "first_with_id from_dict i [] = Inr None"
| "first_with_id from_dict i (r # rs) =
     then_do (getitem r ''id'') (\<lambda>v.
     if v = PInt i then then_do (from_dict r) (\<lambda>x. Inr (Some x))
     else first_with_id from_dict i rs)"

definition getStudentById :: "int \<Rightarrow> 'f repo \<Rightarrow> (error + Student option) \<times> 'f repo" where
  "getStudentById studentId s = (first_with_id Student_from_dict studentId (students (data s)), s)"

definition getDisciplineById :: "int \<Rightarrow> 'f repo \<Rightarrow> (error + Discipline option) \<times> 'f repo" where
  "getDisciplineById disciplineId s =
     (first_with_id Discipline_from_dict disciplineId (disciplines (data s)), s)"

definition getTeacherById :: "int \<Rightarrow> 'f repo \<Rightarrow> (error + Teacher option) \<times> 'f repo" where
  "getTeacherById teacherId s = (first_with_id Teacher_from_dict teacherId (teachers (data s)), s)"

definition getGradeById :: "string \<Rightarrow> int \<Rightarrow> 'f repo \<Rightarrow> (error + Grade option) \<times> 'f repo" where
  "getGradeById today gradeId s =
     (first_with_id (Grade_from_dict today) gradeId (grades (data s)), s)"

subsection \<open>Id generation\<close>

text \<open>
  \<open>a > b\<close> as \<open>max\<close> applies it: defined between two integers, two strings (by code
  point) and two lists (at the first position where they differ, else by length); a
  \<open>TypeError\<close> otherwise.
\<close>

fun str_gt :: "string \<Rightarrow> string \<Rightarrow> bool" where
  "str_gt [] ys = False"
| "str_gt (x # xs) [] = True"
| "str_gt (x # xs) (y # ys) = (if x = y then str_gt xs ys else (of_char y :: nat) < of_char x)"

fun py_gt :: "pyval \<Rightarrow> pyval \<Rightarrow> error + bool"
  and list_gt :: "pyval list \<Rightarrow> pyval list \<Rightarrow> error + bool" where
  "py_gt (PInt a) (PInt b) = Inr (b < a)"
| "py_gt (PStr a) (PStr b) = Inr (str_gt a b)"
| "py_gt (PList a) (PList b) = list_gt a b"
| "py_gt a b = Inl TypeError"
| "list_gt [] ys = Inr False"
| "list_gt (x # xs) [] = Inr True"
| "list_gt (x # xs) (y # ys) = (if x = y then list_gt xs ys else py_gt x y)"

text \<open>\<open>max(g["id"] for g in grades)\<close> after its first item: a later item replaces the
  maximum only when it is greater.\<close>

fun max_id :: "pyval \<Rightarrow> pydict list \<Rightarrow> error + pyval" where
  "max_id m [] = Inr m"
| "max_id m (g # gs) =
     then_do (getitem g ''id'') (\<lambda>v.
     then_do (py_gt v m) (\<lambda>greater. max_id (if greater then v else m) gs))"

definition nextGradeId :: "'f repo \<Rightarrow> (error + int) \<times> 'f repo" where
  "nextGradeId s =
     ((case grades (data s) of
         [] \<Rightarrow> Inr 1
       | g # gs \<Rightarrow>
           then_do (getitem g ''id'') (\<lambda>v.
           then_do (max_id v gs) (\<lambda>m.
             case m of PInt n \<Rightarrow> Inr (n + 1) | _ \<Rightarrow> Inl TypeError))),
      s)"

subsection \<open>Editing a grade (Teacher.editGrade in models.py)\<close>

text \<open>
  The loop of \<open>editGrade\<close> over the Grade objects that \<open>findGrades\<close> returned: \<open>Some\<close> of the
  objects after the assignments to \<open>g.value\<close> and \<open>g.comment\<close> when an id matched, \<open>None\<close>
  when the loop ended without a match. The objects are the ones \<open>Grade.from_dict\<close>
  constructed; the assignments set attributes of these objects.
\<close>

fun edit_fetched :: "int \<Rightarrow> int \<Rightarrow> string \<Rightarrow> Grade list \<Rightarrow> Grade list option" where
  "edit_fetched gradeId newValue comment [] = None"
| "edit_fetched gradeId newValue comment (g # gs) =
     (if g_id g = PInt gradeId
      then Some (g\<lparr>g_value := PInt newValue, g_comment := PStr comment\<rparr> # gs)
      else map_option ((#) g) (edit_fetched gradeId newValue comment gs))"

text \<open>
  The result is what \<open>editGrade\<close> returns, together with the fetched Grade objects as the
  call leaves them.
\<close>

definition editGrade ::
  "(store \<Rightarrow> 'f) \<Rightarrow> (string \<Rightarrow> string) \<Rightarrow> string \<Rightarrow> int \<Rightarrow> int \<Rightarrow> string \<Rightarrow> 'f repo
     \<Rightarrow> (error + bool \<times> Grade list) \<times> 'f repo" where
  "editGrade dump lower today gradeId newValue comment s =
     (case findGrades lower today Search_default s of
        (Inl e, s1) \<Rightarrow> (Inl e, s1)
      | (Inr fetched, s1) \<Rightarrow>
          (case edit_fetched gradeId newValue comment fetched of
             Some fetched' \<Rightarrow> (Inr (True, fetched'), saveToJSON dump (filePath s1) s1)
           | None \<Rightarrow> (Inr (False, fetched), s1)))"


section \<open>The JSON codec (json.dump and json.load)\<close>

text \<open>
  \<open>saveToJSON\<close> calls \<open>json.dump(self._data, f, ensure_ascii=False, indent=2)\<close> on a file
  opened with \<open>encoding="utf-8"\<close>, and \<open>loadFromJSON\<close> calls \<open>json.load(f)\<close> on a file opened
  the same way. A file is its sequence of bytes and a string is its UTF-8 bytes, so that
  writing a string to the file and reading it back leave its bytes as they are; a byte
  below 128 is the ASCII character of that code. A JSON document has \<open>null\<close>, integers,
  strings, arrays and objects; \<open>true\<close>, \<open>false\<close> and numbers with a fraction or an exponent
  are outside the values of the model, and the decoder reports them as an error.
\<close>

datatype json = JNull | JInt int | JStr string | JArr "json list" | JObj "(string \<times> json) list"

subsection \<open>Encoding\<close>

text \<open>
  With \<open>ensure_ascii=False\<close> the encoder escapes the quote, the backslash and the control
  characters below 32 (the five that have a short escape by it, the others as
  \<open>\u00XX\<close> in lowercase hexadecimal) and writes every other character as it is.
\<close>

definition hex_digit :: "nat \<Rightarrow> char" where
  "hex_digit n = (if n < 10 then char_of (48 + n) else char_of (87 + n))"

definition escape_char :: "char \<Rightarrow> string" where
  "escape_char c =
     (if c = CHR 0x22 then [CHR 0x5C, CHR 0x22]
      else if c = CHR 0x5C then [CHR 0x5C, CHR 0x5C]
      else if c = CHR 0x0A then [CHR 0x5C, CHR ''n'']
      else if c = CHR 0x0D then [CHR 0x5C, CHR ''r'']
      else if c = CHR 0x09 then [CHR 0x5C, CHR ''t'']
      else if c = CHR 0x08 then [CHR 0x5C, CHR ''b'']
      else if c = CHR 0x0C then [CHR 0x5C, CHR ''f'']
      else if (of_char c :: nat) < 32
        then [CHR 0x5C, CHR ''u'', CHR ''0'', CHR ''0'',
              hex_digit (of_char c div 16), hex_digit (of_char c mod 16)]
      else [c])"

definition encode_string :: "string \<Rightarrow> string" where
  "encode_string s = CHR 0x22 # concat (map escape_char s) @ [CHR 0x22]"

text \<open>An integer is written in decimal, with a minus sign when it is negative.\<close>

fun digits :: "nat \<Rightarrow> string" where
  "digits n =
     (if n < 10 then [char_of (48 + n)] else digits (n div 10) @ [char_of (48 + n mod 10)])"

definition encode_int :: "int \<Rightarrow> string" where
  "encode_int i = (if i < 0 then CHR ''-'' # digits (nat (- i)) else digits (nat i))"

text \<open>
  With \<open>indent=2\<close> every item of a non-empty array or object starts on a line of its own,
  indented by two spaces for each level of nesting; items are separated by a comma, a
  key from its value by a colon and a space; an empty array is \<open>[]\<close> and an empty object
  \<open>{}\<close>.
\<close>

definition newline_indent :: "nat \<Rightarrow> string" where
  "newline_indent level = CHR 0x0A # replicate (2 * level) (CHR '' '')"

fun encode :: "nat \<Rightarrow> json \<Rightarrow> string"
  and encode_items :: "nat \<Rightarrow> json list \<Rightarrow> string"
  and encode_members :: "nat \<Rightarrow> (string \<times> json) list \<Rightarrow> string" where
  "encode level JNull = ''null''"
| "encode level (JInt i) = encode_int i"
| "encode level (JStr s) = encode_string s"
| "encode level (JArr []) = ''[]''"
| "encode level (JArr (x # xs)) =
     ''['' @ newline_indent (Suc level) @ encode_items (Suc level) (x # xs)
       @ newline_indent level @ '']''"
| "encode level (JObj []) = ''{}''"
| "encode level (JObj (m # ms)) =
     ''{'' @ newline_indent (Suc level) @ encode_members (Suc level) (m # ms)
       @ newline_indent level @ ''}''"
| "encode_items level [] = []"
| "encode_items level [x] = encode level x"
| "encode_items level (x # y # ys) =
     encode level x @ '','' @ newline_indent level @ encode_items level (y # ys)"
| "encode_members level [] = []"
| "encode_members level [(k, v)] = encode_string k @ '': '' @ encode level v"
| "encode_members level ((k, v) # m # ms) =
     encode_string k @ '': '' @ encode level v @ '','' @ newline_indent level
       @ encode_members level (m # ms)"

subsection \<open>Decoding\<close>

datatype token =
  LBrace | RBrace | LBracket | RBracket | Comma | Colon | TNull | TNum int | TStr string

definition is_ws :: "char \<Rightarrow> bool" where
  "is_ws c = (c = CHR '' '' \<or> c = CHR 0x09 \<or> c = CHR 0x0A \<or> c = CHR 0x0D)"

definition is_digit :: "char \<Rightarrow> bool" where
  "is_digit c = (48 \<le> (of_char c :: nat) \<and> (of_char c :: nat) \<le> 57)"

definition hex_val :: "char \<Rightarrow> nat option" where
  "hex_val c =
     (let n = (of_char c :: nat)
      in if 48 \<le> n \<and> n \<le> 57 then Some (n - 48)
         else if 97 \<le> n \<and> n \<le> 102 then Some (n - 87)
         else if 65 \<le> n \<and> n \<le> 70 then Some (n - 55)
         else None)"

definition hex4 :: "char \<Rightarrow> char \<Rightarrow> char \<Rightarrow> char \<Rightarrow> nat option" where
  "hex4 a b c d =
     (case (hex_val a, hex_val b, hex_val c, hex_val d) of
        (Some p, Some q, Some r, Some s) \<Rightarrow> Some (4096 * p + 256 * q + 16 * r + s)
      | _ \<Rightarrow> None)"

text \<open>
  The UTF-8 bytes of a code point. A surrogate on its own is no character and has none.
\<close>

definition utf8 :: "nat \<Rightarrow> string option" where
  "utf8 u =
     (if u < 0x80 then Some [char_of u]
      else if u < 0x800 then Some [char_of (0xC0 + u div 64), char_of (0x80 + u mod 64)]
      else if 0xD800 \<le> u \<and> u \<le> 0xDFFF then None
      else if u < 0x10000
        then Some [char_of (0xE0 + u div 4096), char_of (0x80 + u div 64 mod 64),
                   char_of (0x80 + u mod 64)]
      else Some [char_of (0xF0 + u div 262144), char_of (0x80 + u div 4096 mod 64),
                 char_of (0x80 + u div 64 mod 64), char_of (0x80 + u mod 64)])"

definition unescape :: "char \<Rightarrow> char option" where
  "unescape e =
     (if e = CHR 0x22 then Some (CHR 0x22)
      else if e = CHR 0x5C then Some (CHR 0x5C)
      else if e = CHR ''/'' then Some (CHR ''/'')
      else if e = CHR ''b'' then Some (CHR 0x08)
      else if e = CHR ''f'' then Some (CHR 0x0C)
      else if e = CHR ''n'' then Some (CHR 0x0A)
      else if e = CHR ''r'' then Some (CHR 0x0D)
      else if e = CHR ''t'' then Some (CHR 0x09)
      else None)"

text \<open>The second half of a surrogate pair, when the text goes on with its escape.\<close>

definition low_surrogate :: "string \<Rightarrow> nat option" where
  "low_surrogate cs =
     (case cs of
        b # u # h1 # h2 # h3 # h4 # rest \<Rightarrow>
          if b = CHR 0x5C \<and> u = CHR ''u''
          then (case hex4 h1 h2 h3 h4 of
                  None \<Rightarrow> None
                | Some v \<Rightarrow> if 0xDC00 \<le> v \<and> v \<le> 0xDFFF then Some v else None)
          else None
      | _ \<Rightarrow> None)"

text \<open>
  The text of a string after its opening quote, up to the closing quote: the string and
  what follows it. A control character that is not escaped is an error.
\<close>

fun scan_string :: "string \<Rightarrow> (string \<times> string) option" where
  "scan_string [] = None"
| "scan_string (c # cs) =
     (if c = CHR 0x22 then Some ([], cs)
      else if c = CHR 0x5C then
        (case cs of
           [] \<Rightarrow> None
         | e # cs1 \<Rightarrow>
             if e = CHR ''u'' then
               (case cs1 of
                  h1 # h2 # h3 # h4 # cs2 \<Rightarrow>
                    (case hex4 h1 h2 h3 h4 of
                       None \<Rightarrow> None
                     | Some u \<Rightarrow>
                         if 0xD800 \<le> u \<and> u \<le> 0xDBFF then
                           (case low_surrogate cs2 of
                              None \<Rightarrow> None
                            | Some v \<Rightarrow>
                                (case utf8 (0x10000 + (u - 0xD800) * 1024 + (v - 0xDC00)) of
                                   None \<Rightarrow> None
                                 | Some bytes \<Rightarrow>
                                     map_option (\<lambda>(s, rest). (bytes @ s, rest))
                                       (scan_string (drop 6 cs2))))
                         else
                           (case utf8 u of
                              None \<Rightarrow> None
                            | Some bytes \<Rightarrow>
                                map_option (\<lambda>(s, rest). (bytes @ s, rest)) (scan_string cs2)))
                | _ \<Rightarrow> None)
             else
               (case unescape e of
                  None \<Rightarrow> None
                | Some ch \<Rightarrow> map_option (\<lambda>(s, rest). (ch # s, rest)) (scan_string cs1)))
      else if (of_char c :: nat) < 32 then None
      else map_option (\<lambda>(s, rest). (c # s, rest)) (scan_string cs))"

text \<open>
  A number: an optional minus sign, then \<open>0\<close> or a digit from 1 to 9 and the digits after
  it. A fraction or an exponent after it makes a number outside the model.
\<close>

definition digits_value :: "string \<Rightarrow> nat" where
  "digits_value ds = foldl (\<lambda>a d. 10 * a + (of_char d - 48)) 0 ds"

definition scan_nat :: "string \<Rightarrow> (nat \<times> string) option" where
  "scan_nat cs =
     (case cs of
        [] \<Rightarrow> None
      | d # ds \<Rightarrow>
          if d = CHR ''0'' then Some (0, ds)
          else if is_digit d
            then Some (digits_value (takeWhile is_digit cs), dropWhile is_digit cs)
          else None)"

definition starts_fraction :: "string \<Rightarrow> bool" where
  "starts_fraction cs =
     (case cs of [] \<Rightarrow> False | c # _ \<Rightarrow> c = CHR ''.'' \<or> c = CHR ''e'' \<or> c = CHR ''E'')"

definition scan_number :: "string \<Rightarrow> (int \<times> string) option" where
  "scan_number cs =
     (case cs of
        [] \<Rightarrow> None
      | c # cs1 \<Rightarrow>
          (case (if c = CHR ''-'' then scan_nat cs1 else scan_nat cs) of
             None \<Rightarrow> None
           | Some (n, rest) \<Rightarrow>
               if starts_fraction rest then None
               else Some (if c = CHR ''-'' then - int n else int n, rest)))"

text \<open>
  The tokens of a text. White space (space, tab, line feed, carriage return) may stand
  between any two of them.
\<close>

function lex :: "string \<Rightarrow> token list option" where
  "lex [] = Some []"
| "lex (c # cs) =
     (if is_ws c then lex cs
      else if c = CHR ''{'' then map_option ((#) LBrace) (lex cs)
      else if c = CHR ''}'' then map_option ((#) RBrace) (lex cs)
      else if c = CHR ''['' then map_option ((#) LBracket) (lex cs)
      else if c = CHR '']'' then map_option ((#) RBracket) (lex cs)
      else if c = CHR '','' then map_option ((#) Comma) (lex cs)
      else if c = CHR '':'' then map_option ((#) Colon) (lex cs)
      else if c = CHR 0x22 then
        (case scan_string cs of
           None \<Rightarrow> None
         | Some (s, rest) \<Rightarrow> map_option ((#) (TStr s)) (lex rest))
      else if c = CHR ''n'' then
        (if take 3 cs = ''ull'' then map_option ((#) TNull) (lex (drop 3 cs)) else None)
      else
        (case scan_number (c # cs) of
           None \<Rightarrow> None
         | Some (i, rest) \<Rightarrow> map_option ((#) (TNum i)) (lex rest)))"
  by pat_completeness auto
termination
proof -
  have str: "length rest \<le> length cs" if "scan_string cs = Some (s, rest)" for cs s rest
    using that
  proof (induction "length cs" arbitrary: cs s rest rule: less_induct)
    case less
    note ih = less.hyps [rotated]
    show ?case
    proof (cases cs)
      case Nil
      with less.prems show ?thesis by simp
    next
      case (Cons c cs0)
      with less.prems show ?thesis
        by (auto split: if_splits list.splits option.splits dest!: ih)
    qed
  qed
  have "length (dropWhile is_digit (d # ds)) < Suc (length ds)" if "is_digit d" for d ds
    using that length_dropWhile_le [of is_digit ds] by simp
  then have nat: "length rest < length cs" if "scan_nat cs = Some (n, rest)" for cs n rest
    using that by (auto simp: scan_nat_def split: list.splits if_splits)
  have num: "length rest < length cs" if "scan_number cs = Some (i, rest)" for cs i rest
    using that
    by (auto simp: scan_number_def split: list.splits if_splits option.splits dest!: nat)
  show ?thesis
    by (relation "measure length") (auto dest: num str [THEN le_imp_less_Suc])
qed

text \<open>
  The grammar of a value over the tokens. The first argument bounds the depth of the
  calls; the decoder starts it above twice the number of the tokens.
\<close>

fun parse_value :: "nat \<Rightarrow> token list \<Rightarrow> (json \<times> token list) option"
  and parse_items :: "nat \<Rightarrow> token list \<Rightarrow> (json list \<times> token list) option"
  and parse_members :: "nat \<Rightarrow> token list \<Rightarrow> ((string \<times> json) list \<times> token list) option"
  where
  "parse_value 0 ts = None"
| "parse_value (Suc n) [] = None"
| "parse_value (Suc n) (TNull # ts) = Some (JNull, ts)"
| "parse_value (Suc n) (TNum i # ts) = Some (JInt i, ts)"
| "parse_value (Suc n) (TStr s # ts) = Some (JStr s, ts)"
| "parse_value (Suc n) (LBracket # RBracket # ts) = Some (JArr [], ts)"
| "parse_value (Suc n) (LBracket # ts) =
     map_option (\<lambda>(xs, rest). (JArr xs, rest)) (parse_items n ts)"
| "parse_value (Suc n) (LBrace # RBrace # ts) = Some (JObj [], ts)"
| "parse_value (Suc n) (LBrace # ts) =
     map_option (\<lambda>(ms, rest). (JObj ms, rest)) (parse_members n ts)"
| "parse_value (Suc n) (t # ts) = None"
| "parse_items 0 ts = None"
| "parse_items (Suc n) ts =
     (case parse_value n ts of
        None \<Rightarrow> None
      | Some (x, rest) \<Rightarrow>
          (case rest of
             Comma # rest' \<Rightarrow> map_option (\<lambda>(xs, r). (x # xs, r)) (parse_items n rest')
           | RBracket # rest' \<Rightarrow> Some ([x], rest')
           | _ \<Rightarrow> None))"
| "parse_members 0 ts = None"
| "parse_members (Suc n) (TStr k # Colon # ts) =
     (case parse_value n ts of
        None \<Rightarrow> None
      | Some (x, rest) \<Rightarrow>
          (case rest of
             Comma # rest' \<Rightarrow> map_option (\<lambda>(ms, r). ((k, x) # ms, r)) (parse_members n rest')
           | RBrace # rest' \<Rightarrow> Some ([(k, x)], rest')
           | _ \<Rightarrow> None))"
| "parse_members (Suc n) ts = None"

text \<open>A text is a document when it is one value and nothing after it.\<close>

definition parse_json :: "string \<Rightarrow> json option" where
  "parse_json text =
     (case lex text of
        None \<Rightarrow> None
      | Some ts \<Rightarrow>
          (case parse_value (2 * length ts + 1) ts of
             Some (v, []) \<Rightarrow> Some v
           | _ \<Rightarrow> None))"

subsection \<open>The store as a document\<close>

text \<open>
  The encoder writes a dictionary's items in the order in which the dictionary lists its
  keys. A map does not record that order: it is the parameter \<open>keys\<close>. \<open>_data\<close> lists its
  five collections in the order in which the constructor creates them.
\<close>

fun json_of_pyval :: "pyval \<Rightarrow> json" where
  "json_of_pyval PNone = JNull"
| "json_of_pyval (PInt i) = JInt i"
| "json_of_pyval (PStr s) = JStr s"
| "json_of_pyval (PList vs) = JArr (map json_of_pyval vs)"

definition json_of_dict :: "(pydict \<Rightarrow> string list) \<Rightarrow> pydict \<Rightarrow> json" where
  "json_of_dict keys d = JObj (map (\<lambda>k. (k, json_of_pyval (dict_get d k PNone))) (keys d))"

definition json_of_store :: "(pydict \<Rightarrow> string list) \<Rightarrow> store \<Rightarrow> json" where
  "json_of_store keys st =
     JObj [(''students'', JArr (map (json_of_dict keys) (students st))),
           (''teachers'', JArr (map (json_of_dict keys) (teachers st))),
           (''disciplines'', JArr (map (json_of_dict keys) (disciplines st))),
           (''grades'', JArr (map (json_of_dict keys) (grades st))),
           (''groups'', JArr (map (json_of_dict keys) (groups st)))]"

definition json_dump :: "(pydict \<Rightarrow> string list) \<Rightarrow> store \<Rightarrow> string" where
  "json_dump keys st = encode 0 (json_of_store keys st)"

text \<open>
  The decoder builds a dictionary from an object, a later item replacing an earlier one
  of the same key. What is not of the layout of the store (five collections, each an
  array of flat records) is outside the model and reported as an error.
\<close>

fun pyval_of_json :: "json \<Rightarrow> pyval option"
  and pyvals_of_json :: "json list \<Rightarrow> pyval list option" where
  "pyval_of_json JNull = Some PNone"
| "pyval_of_json (JInt i) = Some (PInt i)"
| "pyval_of_json (JStr s) = Some (PStr s)"
| "pyval_of_json (JArr xs) = map_option PList (pyvals_of_json xs)"
| "pyval_of_json (JObj ms) = None"
| "pyvals_of_json [] = Some []"
| "pyvals_of_json (x # xs) =
     (case pyval_of_json x of
        None \<Rightarrow> None
      | Some v \<Rightarrow> map_option ((#) v) (pyvals_of_json xs))"

fun dict_of_members :: "pydict \<Rightarrow> (string \<times> json) list \<Rightarrow> pydict option" where
  "dict_of_members d [] = Some d"
| "dict_of_members d ((k, x) # ms) =
     (case pyval_of_json x of
        None \<Rightarrow> None
      | Some v \<Rightarrow> dict_of_members (d(k \<mapsto> v)) ms)"

fun dict_of_json :: "json \<Rightarrow> pydict option" where
  "dict_of_json (JObj ms) = dict_of_members Map.empty ms"
| "dict_of_json x = None"

fun dicts_of_json :: "json list \<Rightarrow> pydict list option" where
  "dicts_of_json [] = Some []"
| "dicts_of_json (x # xs) =
     (case dict_of_json x of
        None \<Rightarrow> None
      | Some d \<Rightarrow> map_option ((#) d) (dicts_of_json xs))"

definition collection_of :: "(string \<times> json) list \<Rightarrow> string \<Rightarrow> pydict list option" where
  "collection_of ms name =
     (case map_of (rev ms) name of
        Some (JArr xs) \<Rightarrow> dicts_of_json xs
      | _ \<Rightarrow> None)"

definition store_of_json :: "json \<Rightarrow> store option" where
  "store_of_json x =
     (case x of
        JObj ms \<Rightarrow>
          (case (collection_of ms ''students'', collection_of ms ''teachers'',
                 collection_of ms ''disciplines'', collection_of ms ''grades'',
                 collection_of ms ''groups'') of
             (Some s, Some t, Some d, Some g, Some r) \<Rightarrow>
               Some \<lparr>students = s, teachers = t, disciplines = d, grades = g, groups = r\<rparr>
           | _ \<Rightarrow> None)
      | _ \<Rightarrow> None)"

definition json_load :: "string \<Rightarrow> error + store" where
  "json_load text =
     (case parse_json text of
        None \<Rightarrow> Inl JSONDecodeError
      | Some x \<Rightarrow>
          (case store_of_json x of
             None \<Rightarrow> Inl JSONDecodeError
           | Some st \<Rightarrow> Inr st))"

text \<open>\<open>keys\<close> lists the keys of every record of the store, each once.\<close>

definition lists_keys :: "(pydict \<Rightarrow> string list) \<Rightarrow> store \<Rightarrow> bool" where
  "lists_keys keys st =
     list_all (\<lambda>d. distinct (keys d) \<and> set (keys d) = dom d)
       (students st @ teachers st @ disciplines st @ grades st @ groups st)"

subsection \<open>The tokens of an encoded document\<close>

text \<open>The tokens of the text that the encoder writes for a document.\<close>

fun tokens :: "json \<Rightarrow> token list"
  and tokens_items :: "json list \<Rightarrow> token list"
  and tokens_members :: "(string \<times> json) list \<Rightarrow> token list" where
  "tokens JNull = [TNull]"
| "tokens (JInt i) = [TNum i]"
| "tokens (JStr s) = [TStr s]"
| "tokens (JArr []) = [LBracket, RBracket]"
| "tokens (JArr (x # xs)) = LBracket # tokens_items (x # xs) @ [RBracket]"
| "tokens (JObj []) = [LBrace, RBrace]"
| "tokens (JObj (m # ms)) = LBrace # tokens_members (m # ms) @ [RBrace]"
| "tokens_items [] = []"
| "tokens_items [x] = tokens x"
| "tokens_items (x # y # ys) = tokens x @ Comma # tokens_items (y # ys)"
| "tokens_members [] = []"
| "tokens_members [(k, v)] = TStr k # Colon # tokens v"
| "tokens_members ((k, v) # m # ms) = TStr k # Colon # tokens v @ Comma # tokens_members (m # ms)"

text \<open>What may follow a value in the text that the encoder writes.\<close>

definition delimited :: "string \<Rightarrow> bool" where
  "delimited rest = (case rest of [] \<Rightarrow> True | c # _ \<Rightarrow> c = CHR 0x0A \<or> c = CHR '','')"


section \<open>The specification's vocabulary\<close>

subsection \<open>Stores the operations run on without raising\<close>

definition has_keys :: "string list \<Rightarrow> pydict \<Rightarrow> bool" where
  "has_keys ks d = list_all (\<lambda>k. d k \<noteq> None) ks"

definition Grade_required :: "string list" where
  "Grade_required =
     [''id'', ''value'', ''assessmentType'', ''studentId'', ''disciplineId'', ''teacherId'']"

definition Student_required :: "string list" where
  "Student_required =
     [''id'', ''fullName'', ''email'', ''passwordHash'', ''graduateBookNumber'', ''group'']"

definition Teacher_required :: "string list" where
  "Teacher_required =
     [''id'', ''fullName'', ''email'', ''passwordHash'', ''department'', ''position'']"

definition Discipline_required :: "string list" where
  "Discipline_required = [''id'', ''name'', ''semester'', ''assessmentType'']"

definition Group_required :: "string list" where
  "Group_required = [''id'', ''name'', ''specialty'', ''enrollmentYear'']"

text \<open>Every record of a collection has an id that can be a dictionary key.\<close>

definition indexable :: "pydict list \<Rightarrow> bool" where
  "indexable recs =
     list_all (\<lambda>r. case r ''id'' of None \<Rightarrow> False | Some k \<Rightarrow> hashable k) recs"

text \<open>A grade record has its required fields, and its two references can be looked up.\<close>

definition joinable :: "pydict \<Rightarrow> bool" where
  "joinable gd =
     (has_keys Grade_required gd \<and> hashable (dict_get gd ''studentId'' PNone)
      \<and> hashable (dict_get gd ''disciplineId'' PNone))"

definition well_formed :: "store \<Rightarrow> bool" where
  "well_formed st =
     (indexable (students st) \<and> indexable (disciplines st) \<and> list_all joinable (grades st))"

text \<open>A field that is a string wherever it is present.\<close>

definition is_text :: "string \<Rightarrow> pydict \<Rightarrow> bool" where
  "is_text k r = (case r k of None \<Rightarrow> True | Some (PStr s) \<Rightarrow> True | Some _ \<Rightarrow> False)"

definition textual :: "store \<Rightarrow> bool" where
  "textual st =
     (list_all (is_text ''fullName'') (students st) \<and> list_all (is_text ''name'') (disciplines st)
      \<and> list_all (is_text ''assessmentType'') (grades st))"

definition has_grade_id :: "int \<Rightarrow> pydict \<Rightarrow> bool" where
  "has_grade_id i g = (g ''id'' = Some (PInt i))"

definition has_int_id :: "pydict \<Rightarrow> bool" where
  "has_int_id g = (case g ''id'' of Some (PInt n) \<Rightarrow> True | _ \<Rightarrow> False)"

definition int_ids :: "pydict list \<Rightarrow> int list" where
  "int_ids gs = concat (map (\<lambda>g. case g ''id'' of Some (PInt n) \<Rightarrow> [n] | _ \<Rightarrow> []) gs)"

subsection \<open>The filter of the search, in the specification's words\<close>

text \<open>
  A reference resolves to the stored record of that id, to the last one when several
  records share the id, and to the empty record when there is none.
\<close>

definition resolve :: "pydict list \<Rightarrow> pyval \<Rightarrow> pydict" where
  "resolve recs k =
     (case filter (\<lambda>r. r ''id'' = Some k) recs of
        [] \<Rightarrow> Map.empty
      | r # rs \<Rightarrow> last (r # rs))"

definition contains_ci :: "(string \<Rightarrow> string) \<Rightarrow> string \<Rightarrow> pyval \<Rightarrow> bool" where
  "contains_ci lower needle v =
     (case v of PStr s \<Rightarrow> str_in (lower needle) (lower s) | _ \<Rightarrow> False)"

definition equals_ci :: "(string \<Rightarrow> string) \<Rightarrow> string \<Rightarrow> pyval \<Rightarrow> bool" where
  "equals_ci lower x v = (case v of PStr s \<Rightarrow> lower x = lower s | _ \<Rightarrow> False)"

text \<open>
  The four predicates, each skipped when its criteria field is empty or unset, joined by
  conjunction.
\<close>

definition satisfies :: "(string \<Rightarrow> string) \<Rightarrow> store \<Rightarrow> Search \<Rightarrow> pydict \<Rightarrow> bool" where
  "satisfies lower st criteria gd =
     (let student = resolve (students st) (dict_get gd ''studentId'' PNone);
          discipline = resolve (disciplines st) (dict_get gd ''disciplineId'' PNone)
      in (studentName criteria = [] \<or>
            contains_ci lower (studentName criteria) (dict_get student ''fullName'' (PStr [])))
       \<and> (disciplineName criteria = [] \<or>
            contains_ci lower (disciplineName criteria) (dict_get discipline ''name'' (PStr [])))
       \<and> (case semester criteria of
             None \<Rightarrow> True
           | Some n \<Rightarrow> dict_get discipline ''semester'' PNone = PInt n)
       \<and> (assessmentType criteria = [] \<or>
            equals_ci lower (assessmentType criteria) (dict_get gd ''assessmentType'' (PStr []))))"

subsection \<open>Deserialization, in the specification's words\<close>

text \<open>
  Deserialization fails with the missing-field error, naming a required key that is
  absent, exactly when one is absent; otherwise it builds the object from the stored
  values as they are.
\<close>

definition from_dict_spec :: "string list \<Rightarrow> (pydict \<Rightarrow> 'a) \<Rightarrow> pydict \<Rightarrow> error + 'a" where
  "from_dict_spec required build d =
     (case filter (\<lambda>k. d k = None) required of
        [] \<Rightarrow> Inr (build d)
      | k # _ \<Rightarrow> Inl (KeyError k))"

text \<open>An optional field: its default stands in when the key is absent or \<open>null\<close>.\<close>

definition or_default :: "pydict \<Rightarrow> string \<Rightarrow> pyval \<Rightarrow> pyval" where
  "or_default d k dflt = (case d k of None \<Rightarrow> dflt | Some PNone \<Rightarrow> dflt | Some v \<Rightarrow> v)"

definition Grade_fields :: "string \<Rightarrow> pydict \<Rightarrow> Grade" where
  "Grade_fields today d =
     \<lparr>g_id = dict_get d ''id'' PNone, g_value = dict_get d ''value'' PNone,
      g_assessmentType = dict_get d ''assessmentType'' PNone,
      g_studentId = dict_get d ''studentId'' PNone,
      g_disciplineId = dict_get d ''disciplineId'' PNone,
      g_teacherId = dict_get d ''teacherId'' PNone,
      g_comment = dict_get d ''comment'' (PStr []),
      g_date = or_default d ''date'' (PStr today)\<rparr>"

definition Student_fields :: "pydict \<Rightarrow> Student" where
  "Student_fields d =
     \<lparr>u_id = dict_get d ''id'' PNone, u_fullName = dict_get d ''fullName'' PNone,
      u_email = dict_get d ''email'' PNone, u_passwordHash = dict_get d ''passwordHash'' PNone,
      s_graduateBookNumber = dict_get d ''graduateBookNumber'' PNone,
      s_group = dict_get d ''group'' PNone\<rparr>"

definition Teacher_fields :: "pydict \<Rightarrow> Teacher" where
  "Teacher_fields d =
     \<lparr>u_id = dict_get d ''id'' PNone, u_fullName = dict_get d ''fullName'' PNone,
      u_email = dict_get d ''email'' PNone, u_passwordHash = dict_get d ''passwordHash'' PNone,
      t_department = dict_get d ''department'' PNone,
      t_position = dict_get d ''position'' PNone\<rparr>"

definition Discipline_fields :: "pydict \<Rightarrow> Discipline" where
  "Discipline_fields d =
     \<lparr>d_id = dict_get d ''id'' PNone, d_name = dict_get d ''name'' PNone,
      d_semester = dict_get d ''semester'' PNone,
      d_assessmentType = dict_get d ''assessmentType'' PNone\<rparr>"

definition Group_fields :: "pydict \<Rightarrow> Group" where
  "Group_fields d =
     \<lparr>gr_id = dict_get d ''id'' PNone, gr_name = dict_get d ''name'' PNone,
      gr_specialty = dict_get d ''specialty'' PNone,
      gr_enrollmentYear = dict_get d ''enrollmentYear'' PNone,
      gr_studentIds = or_default d ''studentIds'' (PList [])\<rparr>"


section \<open>Example data\<close>

text \<open>
  The seed of the repository's tests: two students, one teacher, two disciplines
  (semesters 4 and 3), one group and three grades. The teacher's name is kept in
  Cyrillic, as UTF-8 bytes. \<open>ascii_lower\<close> is lowercasing on ASCII letters.
\<close>

definition ascii_lower :: "string \<Rightarrow> string" where
  "ascii_lower s =
     map (\<lambda>c. case map_of (zip ''ABCDEFGHIJKLMNOPQRSTUVWXYZ'' ''abcdefghijklmnopqrstuvwxyz'') c of
                None \<Rightarrow> c
              | Some l \<Rightarrow> l) s"

definition student1 :: pydict where
  "student1 =
     [''id'' \<mapsto> PInt 1, ''fullName'' \<mapsto> PStr ''Arzamasov Sergey'', ''email'' \<mapsto> PStr ''a@a.ru'',
      ''passwordHash'' \<mapsto> PStr ''h1'', ''graduateBookNumber'' \<mapsto> PStr ''23-001'',
      ''group'' \<mapsto> PStr ''SAU-23-1b'']"

definition student2 :: pydict where
  "student2 =
     [''id'' \<mapsto> PInt 2, ''fullName'' \<mapsto> PStr ''Ivanova Maria'', ''email'' \<mapsto> PStr ''i@i.ru'',
      ''passwordHash'' \<mapsto> PStr ''h2'', ''graduateBookNumber'' \<mapsto> PStr ''23-002'',
      ''group'' \<mapsto> PStr ''SAU-23-1b'']"

definition teacher1 :: pydict where
  "teacher1 =
     [''id'' \<mapsto> PInt 1,
      ''fullName'' \<mapsto> PStr [CHR 0xD0, CHR 0xA0, CHR 0xD1, CHR 0x83, CHR 0xD1, CHR 0x81],
      ''email'' \<mapsto> PStr ''r@r.ru'', ''passwordHash'' \<mapsto> PStr ''th1'',
      ''department'' \<mapsto> PStr ''PI'', ''position'' \<mapsto> PStr ''Docent'']"

definition discipline1 :: pydict where
  "discipline1 =
     [''id'' \<mapsto> PInt 1, ''name'' \<mapsto> PStr ''Software engineering'', ''semester'' \<mapsto> PInt 4,
      ''assessmentType'' \<mapsto> PStr ''exam'']"

definition discipline2 :: pydict where
  "discipline2 =
     [''id'' \<mapsto> PInt 2, ''name'' \<mapsto> PStr ''Databases'', ''semester'' \<mapsto> PInt 3,
      ''assessmentType'' \<mapsto> PStr ''credit'']"

definition group1 :: pydict where
  "group1 =
     [''id'' \<mapsto> PInt 1, ''name'' \<mapsto> PStr ''SAU-23-1b'', ''specialty'' \<mapsto> PStr ''Automation'',
      ''enrollmentYear'' \<mapsto> PInt 2023, ''studentIds'' \<mapsto> PList [PInt 1, PInt 2]]"

definition grade1 :: Grade where
  "grade1 =
     \<lparr>g_id = PInt 1, g_value = PInt 5, g_assessmentType = PStr ''exam'', g_studentId = PInt 1,
      g_disciplineId = PInt 1, g_teacherId = PInt 1, g_comment = PStr ''Excellent'',
      g_date = PStr ''2024-06-15''\<rparr>"

definition grade2 :: Grade where
  "grade2 =
     \<lparr>g_id = PInt 2, g_value = PInt 4, g_assessmentType = PStr ''credit'', g_studentId = PInt 2,
      g_disciplineId = PInt 2, g_teacherId = PInt 1, g_comment = PStr [],
      g_date = PStr ''2024-06-18''\<rparr>"

definition grade3 :: Grade where
  "grade3 =
     \<lparr>g_id = PInt 3, g_value = PInt 3, g_assessmentType = PStr ''exam'', g_studentId = PInt 2,
      g_disciplineId = PInt 1, g_teacherId = PInt 1, g_comment = PStr ''Fair'',
      g_date = PStr ''2024-06-15''\<rparr>"

text \<open>A grade whose student and discipline are not in the store.\<close>

definition grade4 :: Grade where
  "grade4 =
     \<lparr>g_id = PInt 4, g_value = PInt 2, g_assessmentType = PStr ''credit'', g_studentId = PInt 99,
      g_disciplineId = PInt 98, g_teacherId = PInt 1, g_comment = PStr [],
      g_date = PStr ''2024-06-19''\<rparr>"

definition seed :: store where
  "seed =
     \<lparr>students = [student1, student2], teachers = [teacher1],
      disciplines = [discipline1, discipline2],
      grades = [Grade_to_dict grade1, Grade_to_dict grade2, Grade_to_dict grade3],
      groups = [group1]\<rparr>"

definition seed_repo :: "store repo" where
  "seed_repo = \<lparr>filePath = ''data.json'', data = seed, files = Map.empty, writes = []\<rparr>"

definition dangling_repo :: "store repo" where
  "dangling_repo =
     \<lparr>filePath = ''data.json'', data = seed\<lparr>grades := grades seed @ [Grade_to_dict grade4]\<rparr>,
      files = Map.empty, writes = []\<rparr>"

definition empty_store :: store where
  "empty_store = \<lparr>students = [], teachers = [], disciplines = [], grades = [], groups = []\<rparr>"

definition empty_repo :: "store repo" where
  "empty_repo = \<lparr>filePath = ''data.json'', data = empty_store, files = Map.empty, writes = []\<rparr>"

text \<open>The empty repository after two calls of \<open>addGrade\<close> with grades of the same id.\<close>

definition twice_added :: "store repo" where
  "twice_added =
     addGrade (\<lambda>d. d) (grade1\<lparr>g_value := PInt 4\<rparr>) (addGrade (\<lambda>d. d) grade1 empty_repo)"

definition example_criteria :: Search where
  "example_criteria =
     \<lparr>studentName = ''IVAN'', disciplineName = ''data'', semester = Some 3,
      assessmentType = ''CREDIT''\<rparr>"

text \<open>A grade record without comment and date, and the same without its teacher.\<close>

definition bare_grade :: pydict where
  "bare_grade =
     [''id'' \<mapsto> PInt 4, ''value'' \<mapsto> PInt 5, ''assessmentType'' \<mapsto> PStr ''credit'',
      ''studentId'' \<mapsto> PInt 1, ''disciplineId'' \<mapsto> PInt 1, ''teacherId'' \<mapsto> PInt 1]"

definition no_teacher_grade :: pydict where
  "no_teacher_grade =
     [''id'' \<mapsto> PInt 4, ''value'' \<mapsto> PInt 5, ''assessmentType'' \<mapsto> PStr ''credit'',
      ''studentId'' \<mapsto> PInt 1, ''disciplineId'' \<mapsto> PInt 1]"

definition bare_group :: pydict where
  "bare_group =
     [''id'' \<mapsto> PInt 2, ''name'' \<mapsto> PStr ''IVT-22'', ''specialty'' \<mapsto> PStr ''IVT'',
      ''enrollmentYear'' \<mapsto> PInt 2022]"


text \<open>The keys of a record of the file layout, in the order of the field names below.\<close>

definition field_names :: "string list" where
  "field_names =
     [''id'', ''fullName'', ''email'', ''passwordHash'', ''graduateBookNumber'', ''group'',
      ''department'', ''position'', ''name'', ''semester'', ''assessmentType'', ''specialty'',
      ''enrollmentYear'', ''studentIds'', ''value'', ''date'', ''comment'', ''studentId'',
      ''disciplineId'', ''teacherId'']"

definition layout_keys :: "pydict \<Rightarrow> string list" where
  "layout_keys d = filter (\<lambda>k. d k \<noteq> None) field_names"

text \<open>A repository object with other data, reading the files that another one wrote.\<close>

definition reader :: "(string \<rightharpoonup> string) \<Rightarrow> string repo" where
  "reader fs =
     \<lparr>filePath = ''other.json'',
      data = \<lparr>students = [student1], teachers = [], disciplines = [], grades = [], groups = []\<rparr>,
      files = fs, writes = []\<rparr>"

text \<open>A repository object of the given data, with no file written yet.\<close>

definition text_repo :: "store \<Rightarrow> string repo" where
  "text_repo st = \<lparr>filePath = ''data.json'', data = st, files = Map.empty, writes = []\<rparr>"


section \<open>Auxiliary facts\<close>

text \<open>\<open>str_in\<close> is the substring relation.\<close>

lemma str_in_iff: "str_in xs ys \<longleftrightarrow> (\<exists>ps ss. ys = ps @ xs @ ss)"
proof (induction ys)
  case Nil
  then show ?case by auto
next
  case (Cons y ys)
  show ?case
  proof
    assume "str_in xs (y # ys)"
    then consider "prefix xs (y # ys)" | "str_in xs ys" by auto
    then show "\<exists>ps ss. y # ys = ps @ xs @ ss"
    proof cases
      case 1
      then obtain ss where "y # ys = xs @ ss" by (auto simp: prefix_def)
      then have "y # ys = [] @ xs @ ss" by simp
      then show ?thesis by blast
    next
      case 2
      with Cons.IH obtain ps ss where "ys = ps @ xs @ ss" by blast
      then have "y # ys = (y # ps) @ xs @ ss" by simp
      then show ?thesis by blast
    qed
  next
    assume "\<exists>ps ss. y # ys = ps @ xs @ ss"
    then obtain ps ss where e: "y # ys = ps @ xs @ ss" by blast
    show "str_in xs (y # ys)"
    proof (cases ps)
      case Nil
      with e have "prefix xs (y # ys)" by (simp add: prefix_def)
      then show ?thesis by simp
    next
      case (Cons p ps')
      with e have "ys = ps' @ xs @ ss" by simp
      with Cons.IH have "str_in xs ys" by blast
      then show ?thesis by simp
    qed
  qed
qed

subsection \<open>The lookup tables of the search\<close>

lemma dict_by_id_indexable:
  "indexable recs \<Longrightarrow>
   dict_by_id m recs =
     Inr (\<lambda>k. case filter (\<lambda>r. r ''id'' = Some k) recs of
                [] \<Rightarrow> m k
              | r # rs \<Rightarrow> Some (last (r # rs)))"
proof (induction recs arbitrary: m)
  case Nil
  then show ?case by simp
next
  case (Cons r recs)
  from Cons.prems obtain k where k: "r ''id'' = Some k" "hashable k" and ix: "indexable recs"
    by (auto simp: indexable_def split: option.splits)
  have "dict_by_id m (r # recs) = dict_by_id (m(k \<mapsto> r)) recs"
    using k by (simp add: then_do_def getitem_def)
  also have "\<dots> = Inr (\<lambda>k'. case filter (\<lambda>r. r ''id'' = Some k') recs of
                             [] \<Rightarrow> (m(k \<mapsto> r)) k'
                           | r # rs \<Rightarrow> Some (last (r # rs)))"
    by (rule Cons.IH [OF ix])
  also have "\<dots> = Inr (\<lambda>k'. case filter (\<lambda>r. r ''id'' = Some k') (r # recs) of
                             [] \<Rightarrow> m k'
                           | r # rs \<Rightarrow> Some (last (r # rs)))"
    using k by (auto simp: fun_eq_iff split: list.splits)
  finally show ?case .
qed

lemma get_or_empty_resolve:
  "indexable recs \<Longrightarrow> dict_by_id Map.empty recs = Inr index \<Longrightarrow> hashable k \<Longrightarrow>
   get_or_empty index k = Inr (resolve recs k)"
  by (auto simp: dict_by_id_indexable get_or_empty_def resolve_def split: list.splits)

lemma resolve_cases: "resolve recs k = Map.empty \<or> resolve recs k \<in> set recs"
proof (cases "filter (\<lambda>r. r ''id'' = Some k) recs")
  case Nil
  then show ?thesis by (simp add: resolve_def)
next
  case (Cons r rs)
  then have "resolve recs k = last (filter (\<lambda>r. r ''id'' = Some k) recs)"
    by (simp add: resolve_def)
  moreover have "last (filter (\<lambda>r. r ''id'' = Some k) recs)
                   \<in> set (filter (\<lambda>r. r ''id'' = Some k) recs)"
    using Cons by (intro last_in_set) simp
  ultimately show ?thesis by auto
qed

lemma is_text_resolve: "list_all (is_text f) recs \<Longrightarrow> is_text f (resolve recs k)"
  using resolve_cases [of recs k] by (auto simp: list_all_iff is_text_def)

lemma is_text_get: "is_text f r \<Longrightarrow> \<exists>s. dict_get r f (PStr []) = PStr s"
  by (auto simp: is_text_def dict_get_def split: option.splits pyval.splits)

subsection \<open>The loop of the search\<close>

lemma passes_satisfies:
  assumes ix: "indexable (students st)" "indexable (disciplines st)"
    and idx: "dict_by_id Map.empty (students st) = Inr studs"
             "dict_by_id Map.empty (disciplines st) = Inr discs"
    and j: "joinable gd"
    and tx: "list_all (is_text ''fullName'') (students st)"
            "list_all (is_text ''name'') (disciplines st)"
            "is_text ''assessmentType'' gd"
  shows "passes lower studs discs criteria gd = Inr (satisfies lower st criteria gd)"
proof -
  from j obtain sid did where
    sid: "gd ''studentId'' = Some sid" "hashable sid"
    and did: "gd ''disciplineId'' = Some did" "hashable did"
    by (auto simp: joinable_def has_keys_def Grade_required_def dict_get_def)
  have s: "get_or_empty studs sid = Inr (resolve (students st) sid)"
    using ix(1) idx(1) sid(2) by (rule get_or_empty_resolve)
  have d: "get_or_empty discs did = Inr (resolve (disciplines st) did)"
    using ix(2) idx(2) did(2) by (rule get_or_empty_resolve)
  obtain fn where fn: "dict_get (resolve (students st) sid) ''fullName'' (PStr []) = PStr fn"
    using is_text_get [OF is_text_resolve [OF tx(1)]] by blast
  obtain dn where dn: "dict_get (resolve (disciplines st) did) ''name'' (PStr []) = PStr dn"
    using is_text_get [OF is_text_resolve [OF tx(2)]] by blast
  obtain a where a: "dict_get gd ''assessmentType'' (PStr []) = PStr a"
    using is_text_get [OF tx(3)] by blast
  show ?thesis
    using sid did s d fn dn a
    by (auto simp: passes_def satisfies_def then_do_def getitem_def dict_get_def str_lower_def
        contains_ci_def equals_ci_def split: option.splits)
qed

lemma passes_default: "joinable gd \<Longrightarrow> passes lower studs discs Search_default gd = Inr True"
  by (auto simp: joinable_def has_keys_def Grade_required_def passes_def Search_default_def
      then_do_def getitem_def dict_get_def get_or_empty_def)

lemma joinable_from_dict: "joinable gd \<Longrightarrow> \<exists>g. Grade_from_dict today gd = Inr g"
  by (auto simp: joinable_def has_keys_def Grade_required_def Grade_from_dict_def then_do_def
      getitem_def)

lemma findGrades_loop_filter:
  assumes ix: "indexable (students st)" "indexable (disciplines st)"
    and idx: "dict_by_id Map.empty (students st) = Inr studs"
             "dict_by_id Map.empty (disciplines st) = Inr discs"
    and tx: "list_all (is_text ''fullName'') (students st)"
            "list_all (is_text ''name'') (disciplines st)"
  shows "list_all joinable gds \<Longrightarrow> list_all (is_text ''assessmentType'') gds \<Longrightarrow>
    \<exists>out. findGrades_loop lower today studs discs criteria result gds = Inr (result @ out)
       \<and> map Inr out = map (Grade_from_dict today) (filter (satisfies lower st criteria) gds)"
proof (induction gds arbitrary: result)
  case Nil
  then show ?case by simp
next
  case (Cons gd gds)
  from Cons.prems have j: "joinable gd" and t: "is_text ''assessmentType'' gd"
    and js: "list_all joinable gds" and ts: "list_all (is_text ''assessmentType'') gds"
    by auto
  have p: "passes lower studs discs criteria gd = Inr (satisfies lower st criteria gd)"
    using ix idx j tx t by (rule passes_satisfies)
  show ?case
  proof (cases "satisfies lower st criteria gd")
    case True
    from joinable_from_dict [OF j] obtain g where g: "Grade_from_dict today gd = Inr g"
      by blast
    from Cons.IH [OF js ts, of "result @ [g]"] obtain out where
      "findGrades_loop lower today studs discs criteria (result @ [g]) gds
         = Inr ((result @ [g]) @ out)"
      "map Inr out = map (Grade_from_dict today) (filter (satisfies lower st criteria) gds)"
      by blast
    then have
      "findGrades_loop lower today studs discs criteria result (gd # gds)
         = Inr (result @ (g # out))
       \<and> map Inr (g # out)
           = map (Grade_from_dict today) (filter (satisfies lower st criteria) (gd # gds))"
      using p True g by (simp add: then_do_def)
    then show ?thesis by blast
  next
    case False
    from Cons.IH [OF js ts, of result] obtain out where
      "findGrades_loop lower today studs discs criteria result gds = Inr (result @ out)"
      "map Inr out = map (Grade_from_dict today) (filter (satisfies lower st criteria) gds)"
      by blast
    then show ?thesis using p False by (simp add: then_do_def)
  qed
qed

lemma findGrades_loop_default:
  "list_all joinable gds \<Longrightarrow>
    \<exists>out. findGrades_loop lower today studs discs Search_default result gds = Inr (result @ out)
       \<and> map Inr out = map (Grade_from_dict today) gds"
proof (induction gds arbitrary: result)
  case Nil
  then show ?case by simp
next
  case (Cons gd gds)
  from Cons.prems have j: "joinable gd" and js: "list_all joinable gds" by auto
  from joinable_from_dict [OF j] obtain g where g: "Grade_from_dict today gd = Inr g" by blast
  from Cons.IH [OF js, of "result @ [g]"] obtain out where
    "findGrades_loop lower today studs discs Search_default (result @ [g]) gds
       = Inr ((result @ [g]) @ out)"
    "map Inr out = map (Grade_from_dict today) gds"
    by blast
  then have
    "findGrades_loop lower today studs discs Search_default result (gd # gds)
       = Inr (result @ (g # out))
     \<and> map Inr (g # out) = map (Grade_from_dict today) (gd # gds)"
    using passes_default [OF j] g by (simp add: then_do_def)
  then show ?case by blast
qed

lemma findGrades_default_all:
  assumes "well_formed (data s)"
  shows "\<exists>found. findGrades lower today Search_default s = (Inr found, s)
     \<and> map Inr found = map (Grade_from_dict today) (grades (data s))"
proof -
  from assms have ix: "indexable (students (data s))" "indexable (disciplines (data s))"
    and js: "list_all joinable (grades (data s))"
    by (auto simp: well_formed_def)
  obtain studs where st: "dict_by_id Map.empty (students (data s)) = Inr studs"
    using dict_by_id_indexable [OF ix(1)] by blast
  obtain discs where di: "dict_by_id Map.empty (disciplines (data s)) = Inr discs"
    using dict_by_id_indexable [OF ix(2)] by blast
  from findGrades_loop_default [OF js, of lower today studs discs "[]"] obtain out where
    "findGrades_loop lower today studs discs Search_default [] (grades (data s)) = Inr out"
    "map Inr out = map (Grade_from_dict today) (grades (data s))"
    by auto
  then show ?thesis using st di by (simp add: findGrades_def then_do_def)
qed

subsection \<open>Removal and id generation\<close>

lemma without_id_filter:
  "list_all (\<lambda>g. g ''id'' \<noteq> None) gs \<Longrightarrow>
   without_id i gs = Inr (filter (\<lambda>g. \<not> has_grade_id i g) gs)"
  by (induction gs) (auto simp: then_do_def getitem_def has_grade_id_def)

lemma filter_shorter: "length (filter (\<lambda>g. \<not> P g) gs) < length gs \<longleftrightarrow> list_ex P gs"
proof (induction gs)
  case Nil
  then show ?case by simp
next
  case (Cons g gs)
  have "length (filter (\<lambda>g. \<not> P g) gs) \<le> length gs" by simp
  with Cons show ?case by (auto simp: less_Suc_eq_le)
qed

lemma filter_none: "\<not> list_ex P gs \<Longrightarrow> filter (\<lambda>g. \<not> P g) gs = gs"
  by (induction gs) auto

lemma filter_unique:
  "distinct (map f gs) \<Longrightarrow> list_ex (\<lambda>g. f g = v) gs \<Longrightarrow>
   length (filter (\<lambda>g. f g \<noteq> v) gs) + 1 = length gs"
proof (induction gs)
  case Nil
  then show ?case by simp
next
  case (Cons g gs)
  show ?case
  proof (cases "f g = v")
    case True
    with Cons.prems have "v \<notin> f ` set gs" by auto
    then have "filter (\<lambda>g. f g \<noteq> v) gs = gs" by (induction gs) auto
    with True show ?thesis by simp
  next
    case False
    with Cons show ?thesis by auto
  qed
qed

lemma has_int_idD: "has_int_id g \<Longrightarrow> \<exists>n. g ''id'' = Some (PInt n)"
  by (cases "g ''id''") (auto simp: has_int_id_def split: pyval.splits)

lemma max_id_fold:
  "list_all has_int_id gs \<Longrightarrow> max_id (PInt m) gs = Inr (PInt (fold max (int_ids gs) m))"
proof (induction gs arbitrary: m)
  case Nil
  then show ?case by (simp add: int_ids_def)
next
  case (Cons g gs)
  from Cons.prems have "has_int_id g" and r: "list_all has_int_id gs" by auto
  then obtain n where n: "g ''id'' = Some (PInt n)" using has_int_idD by blast
  have "max_id (PInt m) (g # gs) = max_id (PInt (max n m)) gs"
    using n by (simp add: then_do_def getitem_def max_def)
  also have "\<dots> = Inr (PInt (fold max (int_ids gs) (max n m)))" by (rule Cons.IH [OF r])
  finally show ?case using n by (simp add: int_ids_def)
qed

lemma int_ids_mem: "g \<in> set gs \<Longrightarrow> g ''id'' = Some (PInt n) \<Longrightarrow> n \<in> set (int_ids gs)"
  by (induction gs) (auto simp: int_ids_def)

subsection \<open>Deserialization\<close>

lemma Grade_from_dict_spec:
  "Grade_from_dict today d = from_dict_spec Grade_required (Grade_fields today) d"
  by (simp add: Grade_from_dict_def from_dict_spec_def Grade_required_def Grade_fields_def
      Grade_init_def or_default_def then_do_def getitem_def dict_get_def
      split: option.splits pyval.splits)

lemma Student_from_dict_spec:
  "Student_from_dict d = from_dict_spec Student_required Student_fields d"
  by (simp add: Student_from_dict_def from_dict_spec_def Student_required_def Student_fields_def
      then_do_def getitem_def dict_get_def split: option.splits)

lemma Teacher_from_dict_spec:
  "Teacher_from_dict d = from_dict_spec Teacher_required Teacher_fields d"
  by (simp add: Teacher_from_dict_def from_dict_spec_def Teacher_required_def Teacher_fields_def
      then_do_def getitem_def dict_get_def split: option.splits)

lemma Discipline_from_dict_spec:
  "Discipline_from_dict d = from_dict_spec Discipline_required Discipline_fields d"
  by (simp add: Discipline_from_dict_def from_dict_spec_def Discipline_required_def
      Discipline_fields_def then_do_def getitem_def dict_get_def split: option.splits)

lemma Group_from_dict_spec:
  "Group_from_dict d = from_dict_spec Group_required Group_fields d"
  by (simp add: Group_from_dict_def from_dict_spec_def Group_required_def Group_fields_def
      Group_init_def or_default_def then_do_def getitem_def dict_get_def
      split: option.splits pyval.splits)

lemma from_dict_spec_succeeds:
  "(\<exists>x. from_dict_spec required build d = Inr x) = has_keys required d"
proof (cases "filter (\<lambda>k. d k = None) required")
  case Nil
  then show ?thesis
    by (auto simp: from_dict_spec_def has_keys_def list_all_iff filter_empty_conv)
next
  case (Cons k ks)
  then have "k \<in> set (filter (\<lambda>k. d k = None) required)" by simp
  then have "k \<in> set required" "d k = None" by auto
  then show ?thesis using Cons
    by (auto simp: from_dict_spec_def has_keys_def list_all_iff)
qed

lemma from_dict_spec_fails:
  "(\<exists>k. k \<in> set required \<and> d k = None \<and> from_dict_spec required build d = Inl (KeyError k))
     = (\<not> has_keys required d)"
proof (cases "filter (\<lambda>k. d k = None) required")
  case Nil
  then show ?thesis
    by (auto simp: from_dict_spec_def has_keys_def list_all_iff filter_empty_conv)
next
  case (Cons k ks)
  then have "k \<in> set (filter (\<lambda>k. d k = None) required)" by simp
  then have "k \<in> set required" "d k = None" by auto
  then show ?thesis using Cons
    by (auto simp: from_dict_spec_def has_keys_def list_all_iff)
qed

lemma Grade_from_to_dict: "g_date g \<noteq> PNone \<Longrightarrow> Grade_from_dict today (Grade_to_dict g) = Inr g"
  by (simp add: Grade_from_dict_def Grade_to_dict_def Grade_init_def then_do_def getitem_def
      dict_get_def)

subsection \<open>The example data\<close>

lemma well_formed_seed: "well_formed seed"
  by (simp add: well_formed_def seed_def indexable_def joinable_def has_keys_def
      Grade_required_def student1_def student2_def discipline1_def discipline2_def
      Grade_to_dict_def grade1_def grade2_def grade3_def dict_get_def)

lemma well_formed_dangling: "well_formed (data dangling_repo)"
  by (simp add: dangling_repo_def well_formed_def seed_def indexable_def joinable_def
      has_keys_def Grade_required_def student1_def student2_def discipline1_def discipline2_def
      Grade_to_dict_def grade1_def grade2_def grade3_def grade4_def dict_get_def)

lemma textual_dangling: "textual (data dangling_repo)"
  by (simp add: dangling_repo_def textual_def seed_def is_text_def student1_def student2_def
      discipline1_def discipline2_def Grade_to_dict_def grade1_def grade2_def grade3_def
      grade4_def)

lemma satisfies_dangling:
  "filter (satisfies ascii_lower (data dangling_repo) example_criteria)
     (grades (data dangling_repo)) = [Grade_to_dict grade2]"
  by (simp add: dangling_repo_def satisfies_def example_criteria_def seed_def resolve_def
      dict_get_def student1_def student2_def discipline1_def discipline2_def Grade_to_dict_def
      grade1_def grade2_def grade3_def grade4_def contains_ci_def equals_ci_def ascii_lower_def)

lemma from_dict_seed:
  "map (Grade_from_dict today) (grades (data seed_repo)) = [Inr grade1, Inr grade2, Inr grade3]"
  by (simp add: seed_repo_def seed_def Grade_from_to_dict grade1_def grade2_def grade3_def)


subsection \<open>The codec: characters and numbers\<close>

lemma code_of_digit: "d < 10 \<Longrightarrow> (of_char (char_of (48 + d :: nat)) :: nat) = 48 + d"
  by simp

lemma char_code_neq: "(of_char c :: nat) \<noteq> of_char d \<Longrightarrow> c \<noteq> d"
  by auto

lemma digit_char_plain:
  assumes "d < 10"
  shows "\<not> is_ws (char_of (48 + d :: nat))"
    and "char_of (48 + d :: nat) \<notin> set [CHR ''{'', CHR ''}'', CHR ''['', CHR '']'', CHR '','',
            CHR '':'', CHR 0x22, CHR ''n'', CHR ''-'', CHR ''.'', CHR ''e'', CHR ''E'', CHR 0x0A]"
    and "is_digit (char_of (48 + d :: nat))"
  using assms
  by (auto simp: is_ws_def is_digit_def dest!: arg_cong [where f = "of_char :: char \<Rightarrow> nat"])

lemma digit_char_zero: "d < 10 \<Longrightarrow> (char_of (48 + d :: nat) = CHR ''0'') = (d = 0)"
proof -
  assume d: "d < 10"
  have "(char_of (48 + d) = CHR ''0'')
          = ((of_char (char_of (48 + d)) :: nat) = of_char (CHR ''0''))"
    by (simp only: of_char_eq_iff)
  also have "\<dots> = (d = 0)" using d by simp
  finally show ?thesis .
qed

lemma digits_nonempty: "digits n \<noteq> []"
  by (subst digits.simps) (simp del: digits.simps)

lemma digits_all_digits: "list_all is_digit (digits n)"
proof (induction n rule: digits.induct)
  case (1 n)
  show ?case
  proof (cases "n < 10")
    case True
    then show ?thesis by (subst digits.simps) (simp add: digit_char_plain del: digits.simps)
  next
    case False
    then have "n mod 10 < 10" by simp
    with False 1 show ?thesis by (subst digits.simps) (simp add: digit_char_plain del: digits.simps)
  qed
qed

lemma digits_head: "0 < n \<Longrightarrow> hd (digits n) \<noteq> CHR ''0''"
proof (induction n rule: digits.induct)
  case (1 n)
  show ?case
  proof (cases "n < 10")
    case True
    with "1.prems" show ?thesis by (subst digits.simps) (simp add: digit_char_zero del: digits.simps)
  next
    case False
    then have "0 < n div 10" by simp
    with False 1 have "hd (digits (n div 10)) \<noteq> CHR ''0''" by (simp del: digits.simps)
    with False show ?thesis
      by (subst digits.simps) (simp add: digits_nonempty del: digits.simps)
  qed
qed

lemma digits_value_snoc:
  "digits_value (ds @ [d]) = 10 * digits_value ds + (of_char d - 48)"
  by (simp add: digits_value_def del: digits.simps)

lemma digits_value_digits: "digits_value (digits n) = n"
proof (induction n rule: digits.induct)
  case (1 n)
  show ?case
  proof (cases "n < 10")
    case True
    then show ?thesis by (subst digits.simps) (simp add: digits_value_def del: digits.simps)
  next
    case False
    then have "n mod 10 < 10" by simp
    with False 1 show ?thesis
      by (subst digits.simps) (simp add: digits_value_snoc del: digits.simps)
  qed
qed

lemma not_digit_rest: "delimited rest \<Longrightarrow> rest = [] \<or> \<not> is_digit (hd rest)"
  by (auto simp: delimited_def is_digit_def split: list.splits)

lemma scan_nat_digits:
  assumes "delimited rest"
  shows "scan_nat (digits n @ rest) = Some (n, rest)"
proof (cases "n = 0")
  case True
  then have "digits n = ''0''" using digit_char_zero [of 0]
    by (subst digits.simps) (simp del: digits.simps)
  then show ?thesis using True by (simp add: scan_nat_def del: digits.simps)
next
  case False
  obtain d ds where c: "digits n = d # ds" using digits_nonempty [of n]
    by (cases "digits n") (auto simp del: digits.simps)
  from False digits_head [of n] c have d0: "d \<noteq> CHR ''0''" by (simp del: digits.simps)
  from digits_all_digits [of n] c have dd: "is_digit d" by (simp del: digits.simps)
  have tw: "takeWhile is_digit (digits n @ rest) = digits n"
    using digits_all_digits [of n] not_digit_rest [OF assms]
    by (cases rest) (auto simp: list_all_iff takeWhile_append2 simp del: digits.simps)
  have dw: "dropWhile is_digit (digits n @ rest) = rest"
    using digits_all_digits [of n] not_digit_rest [OF assms]
    by (cases rest) (auto simp: list_all_iff dropWhile_append2 simp del: digits.simps)
  have "scan_nat ((d # ds) @ rest)
          = Some (digits_value (takeWhile is_digit ((d # ds) @ rest)),
                  dropWhile is_digit ((d # ds) @ rest))"
    using d0 dd by (simp add: scan_nat_def del: digits.simps)
  then show ?thesis
    unfolding c [symmetric] tw dw digits_value_digits .
qed

lemma not_fraction_rest: "delimited rest \<Longrightarrow> \<not> starts_fraction rest"
  by (auto simp: delimited_def starts_fraction_def split: list.splits)

lemma scan_number_encode_int:
  assumes "delimited rest"
  shows "scan_number (encode_int i @ rest) = Some (i, rest)"
proof (cases "i < 0")
  case True
  then show ?thesis
    using scan_nat_digits [OF assms, of "nat (- i)"] not_fraction_rest [OF assms]
    by (simp add: encode_int_def scan_number_def del: digits.simps)
next
  case False
  obtain d ds where c: "digits (nat i) = d # ds"
    using digits_nonempty [of "nat i"]
    by (cases "digits (nat i)") (auto simp del: digits.simps)
  from digits_all_digits [of "nat i"] c have "is_digit d" by (simp del: digits.simps)
  then have "d \<noteq> CHR ''-''" by (auto simp: is_digit_def)
  with False c show ?thesis
    using scan_nat_digits [OF assms, of "nat i"] not_fraction_rest [OF assms]
    by (simp add: encode_int_def scan_number_def del: digits.simps)
qed

lemma encode_int_head:
  "\<exists>c cs. encode_int i = c # cs \<and> (c = CHR ''-'' \<or> is_digit c)"
proof -
  obtain d ds where "digits (nat i) = d # ds"
    using digits_nonempty [of "nat i"]
    by (cases "digits (nat i)") (auto simp del: digits.simps)
  moreover from this digits_all_digits [of "nat i"] have "is_digit d"
    by (simp del: digits.simps)
  ultimately show ?thesis by (auto simp: encode_int_def simp del: digits.simps)
qed

subsection \<open>The codec: strings\<close>

lemma hex_val_hex_digit: "k < 16 \<Longrightarrow> hex_val (hex_digit k) = Some k"
  by (simp add: hex_val_def hex_digit_def Let_def)

lemma hex4_control:
  assumes "n < 32"
  shows "hex4 (CHR ''0'') (CHR ''0'') (hex_digit (n div 16)) (hex_digit (n mod 16)) = Some n"
proof -
  from assms have "n div 16 < 16" by simp
  then have a: "hex_val (hex_digit (n div 16)) = Some (n div 16)" by (rule hex_val_hex_digit)
  have b: "hex_val (hex_digit (n mod 16)) = Some (n mod 16)" by (rule hex_val_hex_digit) simp
  have z: "hex_val (CHR ''0'') = Some 0" by (simp add: hex_val_def)
  show ?thesis by (simp add: hex4_def a b z)
qed

lemma scan_string_escape_char:
  "scan_string (escape_char c @ tail) = map_option (\<lambda>(s, rest). (c # s, rest)) (scan_string tail)"
proof -
  consider (short) "c \<in> set [CHR 0x22, CHR 0x5C, CHR 0x0A, CHR 0x0D, CHR 0x09, CHR 0x08, CHR 0x0C]"
    | (control) "c \<notin> set [CHR 0x22, CHR 0x5C, CHR 0x0A, CHR 0x0D, CHR 0x09, CHR 0x08, CHR 0x0C]"
        "(of_char c :: nat) < 32"
    | (plain) "c \<notin> set [CHR 0x22, CHR 0x5C, CHR 0x0A, CHR 0x0D, CHR 0x09, CHR 0x08, CHR 0x0C]"
        "\<not> (of_char c :: nat) < 32"
    by blast
  then show ?thesis
  proof cases
    case short
    then show ?thesis by (auto simp: escape_char_def unescape_def)
  next
    case control
    from control(2) have u: "utf8 (of_char c) = Some [c]" by (simp add: utf8_def)
    from control show ?thesis
      by (simp add: escape_char_def hex4_control u)
  next
    case plain
    then show ?thesis by (simp add: escape_char_def)
  qed
qed

lemma scan_string_escaped:
  "scan_string (concat (map escape_char s) @ CHR 0x22 # rest) = Some (s, rest)"
  by (induction s) (simp_all add: scan_string_escape_char)

subsection \<open>The codec: tokens\<close>

lemma lex_newline_indent: "lex (newline_indent level @ rest) = lex rest"
proof -
  have "lex (replicate n (CHR '' '') @ rest) = lex rest" for n
    by (induction n) (simp_all add: is_ws_def)
  then show ?thesis by (simp add: newline_indent_def is_ws_def)
qed

lemma lex_encode_string: "lex (encode_string s @ rest) = map_option ((#) (TStr s)) (lex rest)"
  by (simp add: encode_string_def is_ws_def scan_string_escaped)

lemma lex_encode_int:
  assumes "delimited rest"
  shows "lex (encode_int i @ rest) = map_option ((#) (TNum i)) (lex rest)"
proof -
  from encode_int_head [of i] obtain c cs where
    e: "encode_int i = c # cs" and c: "c = CHR ''-'' \<or> is_digit c"
    by blast
  from c have "\<not> is_ws c"
    "c \<notin> set [CHR ''{'', CHR ''}'', CHR ''['', CHR '']'', CHR '','', CHR '':'', CHR 0x22, CHR ''n'']"
    by (auto simp: is_ws_def is_digit_def)
  then have "lex (c # cs @ rest)
               = (case scan_number (c # cs @ rest) of
                    None \<Rightarrow> None
                  | Some (i, rest) \<Rightarrow> map_option ((#) (TNum i)) (lex rest))"
    by simp
  with scan_number_encode_int [OF assms, of i] e show ?thesis by (simp del: digits.simps)
qed

lemma delimited_simps:
  "delimited []" "delimited (CHR '','' # cs)" "delimited (newline_indent level @ cs)"
  by (simp_all add: delimited_def newline_indent_def)

lemma lex_encode:
  "delimited rest \<Longrightarrow> lex (encode level x @ rest) = map_option ((@) (tokens x)) (lex rest)"
  "xs \<noteq> [] \<Longrightarrow> delimited rest \<Longrightarrow>
     lex (encode_items level xs @ rest) = map_option ((@) (tokens_items xs)) (lex rest)"
  "ms \<noteq> [] \<Longrightarrow> delimited rest \<Longrightarrow>
     lex (encode_members level ms @ rest) = map_option ((@) (tokens_members ms)) (lex rest)"
proof (induction level x and level xs and level ms arbitrary: rest and rest and rest
    rule: encode_encode_items_encode_members.induct)
  case (1 level)
  then show ?case by (simp add: is_ws_def option.map_comp comp_def)
next
  case (2 level i)
  then show ?case by (simp add: lex_encode_int option.map_comp comp_def)
next
  case (3 level s)
  then show ?case by (simp add: lex_encode_string option.map_comp comp_def)
next
  case (4 level)
  then show ?case by (simp add: is_ws_def option.map_comp comp_def)
next
  case (5 level x xs)
  have "lex (encode_items (Suc level) (x # xs) @ newline_indent level @ '']'' @ rest)
          = map_option ((@) (tokens_items (x # xs))) (lex (newline_indent level @ '']'' @ rest))"
    by (rule "5.IH") (simp_all add: delimited_simps)
  then show ?case
    by (simp add: is_ws_def lex_newline_indent option.map_comp comp_def)
next
  case (6 level)
  then show ?case by (simp add: is_ws_def option.map_comp comp_def)
next
  case (7 level m ms)
  have "lex (encode_members (Suc level) (m # ms) @ newline_indent level @ ''}'' @ rest)
          = map_option ((@) (tokens_members (m # ms))) (lex (newline_indent level @ ''}'' @ rest))"
    by (rule "7.IH") (simp_all add: delimited_simps)
  then show ?case
    by (simp add: is_ws_def lex_newline_indent option.map_comp comp_def)
next
  case (8 level)
  then show ?case by simp
next
  case (9 level x)
  then show ?case by simp
next
  case (10 level x y ys)
  have a: "lex (encode level x @ '','' @ newline_indent level @ encode_items level (y # ys) @ rest)
          = map_option ((@) (tokens x))
              (lex ('','' @ newline_indent level @ encode_items level (y # ys) @ rest))"
    by (rule "10.IH"(1)) (simp add: delimited_simps)
  have b: "lex (encode_items level (y # ys) @ rest)
          = map_option ((@) (tokens_items (y # ys))) (lex rest)"
    by (rule "10.IH"(2)) (simp_all add: "10.prems")
  from a b show ?case
    by (simp add: is_ws_def lex_newline_indent option.map_comp comp_def)
next
  case (11 level)
  then show ?case by simp
next
  case (12 level k v)
  then show ?case
    by (simp add: is_ws_def lex_encode_string option.map_comp comp_def)
next
  case (13 level k v m ms)
  have a: "lex (encode level v @ '','' @ newline_indent level @ encode_members level (m # ms) @ rest)
          = map_option ((@) (tokens v))
              (lex ('','' @ newline_indent level @ encode_members level (m # ms) @ rest))"
    by (rule "13.IH"(1)) (simp add: delimited_simps)
  have b: "lex (encode_members level (m # ms) @ rest)
          = map_option ((@) (tokens_members (m # ms))) (lex rest)"
    by (rule "13.IH"(2)) (simp_all add: "13.prems")
  from a b show ?case
    by (simp add: is_ws_def lex_encode_string lex_newline_indent option.map_comp comp_def)
qed

subsection \<open>The codec: the grammar\<close>

lemma tokens_head:
  "\<exists>t ts. tokens x = t # ts \<and> t \<noteq> RBracket \<and> t \<noteq> RBrace"
  by (cases x rule: tokens.cases) auto

lemma tokens_items_head:
  assumes "xs \<noteq> []"
  shows "\<exists>t ts. tokens_items xs = t # ts \<and> t \<noteq> RBracket"
proof -
  from assms obtain x ys where xs: "xs = x # ys" by (cases xs) auto
  from tokens_head [of x] obtain t ts where t: "tokens x = t # ts" "t \<noteq> RBracket" by blast
  show ?thesis
  proof (cases ys)
    case Nil
    with xs t show ?thesis by simp
  next
    case (Cons y zs)
    with xs t show ?thesis by simp
  qed
qed

lemma parse_value_array:
  "t \<noteq> RBracket \<Longrightarrow>
   parse_value (Suc n) (LBracket # t # ts)
     = map_option (\<lambda>(xs, rest). (JArr xs, rest)) (parse_items n (t # ts))"
  by (cases t) simp_all

lemma parse_value_object:
  "parse_value (Suc n) (LBrace # TStr k # ts)
     = map_option (\<lambda>(ms, rest). (JObj ms, rest)) (parse_members n (TStr k # ts))"
  by simp

lemma tokens_members_head:
  assumes "ms \<noteq> []"
  shows "\<exists>k ts. tokens_members ms = TStr k # ts"
proof -
  from assms obtain k v ns where ms: "ms = (k, v) # ns" by (cases ms) auto
  then show ?thesis by (cases ns) auto
qed

lemma parse_tokens:
  "2 * length (tokens x) \<le> n \<Longrightarrow> parse_value n (tokens x @ rest) = Some (x, rest)"
  "xs \<noteq> [] \<Longrightarrow> 2 * length (tokens_items xs) + 1 \<le> n \<Longrightarrow>
     parse_items n (tokens_items xs @ RBracket # rest) = Some (xs, rest)"
  "ms \<noteq> [] \<Longrightarrow> 2 * length (tokens_members ms) + 1 \<le> n \<Longrightarrow>
     parse_members n (tokens_members ms @ RBrace # rest) = Some (ms, rest)"
proof (induction x and xs and ms arbitrary: n rest and n rest and n rest
    rule: tokens_tokens_items_tokens_members.induct)
  case 1
  then show ?case by (cases n) simp_all
next
  case (2 i)
  then show ?case by (cases n) simp_all
next
  case (3 s)
  then show ?case by (cases n) simp_all
next
  case 4
  then show ?case by (cases n) simp_all
next
  case (5 x xs)
  from "5.prems" obtain n' where n: "n = Suc n'" by (cases n) auto
  from tokens_items_head [of "x # xs"] obtain t ts where
    h: "tokens_items (x # xs) = t # ts" "t \<noteq> RBracket" by auto
  have "parse_items n' (tokens_items (x # xs) @ RBracket # rest) = Some (x # xs, rest)"
    using "5.prems" n by (intro "5.IH") simp_all
  then have "parse_items n' (t # ts @ RBracket # rest) = Some (x # xs, rest)"
    by (simp add: h)
  with h show ?case by (simp add: n parse_value_array del: tokens_items.simps)
next
  case 6
  then show ?case by (cases n) simp_all
next
  case (7 m ms)
  from "7.prems" obtain n' where n: "n = Suc n'" by (cases n) auto
  from tokens_members_head [of "m # ms"] obtain k ts where
    h: "tokens_members (m # ms) = TStr k # ts" by auto
  have "parse_members n' (tokens_members (m # ms) @ RBrace # rest) = Some (m # ms, rest)"
    using "7.prems" n by (intro "7.IH") simp_all
  then have "parse_members n' (TStr k # ts @ RBrace # rest) = Some (m # ms, rest)"
    by (simp add: h)
  with h show ?case by (simp add: n del: tokens_members.simps)
next
  case 8
  then show ?case by simp
next
  case (9 x)
  from "9.prems" obtain n' where n: "n = Suc n'" by (cases n) auto
  have "parse_value n' (tokens x @ RBracket # rest) = Some (x, RBracket # rest)"
    using "9.prems" n by (intro "9.IH") simp
  then show ?case by (simp add: n)
next
  case (10 x y ys)
  from "10.prems" obtain n' where n: "n = Suc n'" by (cases n) auto
  have a: "parse_value n' (tokens x @ Comma # tokens_items (y # ys) @ RBracket # rest)
             = Some (x, Comma # tokens_items (y # ys) @ RBracket # rest)"
    using "10.prems" n by (intro "10.IH"(1)) simp
  have b: "parse_items n' (tokens_items (y # ys) @ RBracket # rest) = Some (y # ys, rest)"
    using "10.prems" n by (intro "10.IH"(2)) simp_all
  from a b show ?case by (simp add: n)
next
  case 11
  then show ?case by simp
next
  case (12 k v)
  from "12.prems" obtain n' where n: "n = Suc n'" by (cases n) auto
  have "parse_value n' (tokens v @ RBrace # rest) = Some (v, RBrace # rest)"
    using "12.prems" n by (intro "12.IH") simp
  then show ?case by (simp add: n)
next
  case (13 k v m ms)
  from "13.prems" obtain n' where n: "n = Suc n'" by (cases n) auto
  have a: "parse_value n' (tokens v @ Comma # tokens_members (m # ms) @ RBrace # rest)
             = Some (v, Comma # tokens_members (m # ms) @ RBrace # rest)"
    using "13.prems" n by (intro "13.IH"(1)) simp
  have b: "parse_members n' (tokens_members (m # ms) @ RBrace # rest) = Some (m # ms, rest)"
    using "13.prems" n by (intro "13.IH"(2)) simp_all
  from a b show ?case by (simp add: n)
qed

lemma parse_json_encode: "parse_json (encode 0 x) = Some x"
proof -
  have "lex (encode 0 x @ []) = map_option ((@) (tokens x)) (lex [])"
    by (rule lex_encode(1)) (simp add: delimited_simps)
  then have l: "lex (encode 0 x) = Some (tokens x)" by simp
  have "parse_value (2 * length (tokens x) + 1) (tokens x @ []) = Some (x, [])"
    by (rule parse_tokens(1)) simp
  with l show ?thesis by (simp add: parse_json_def)
qed

subsection \<open>The codec: the store as a document\<close>

lemma pyval_of_json_of_pyval: "pyval_of_json (json_of_pyval v) = Some v"
proof (induction v)
  case (PList vs)
  then have "pyvals_of_json (map json_of_pyval vs) = Some vs"
    by (induction vs) simp_all
  then show ?case by simp
qed simp_all

lemma dict_of_members_keys:
  "set ks \<subseteq> dom d \<Longrightarrow>
   dict_of_members d0 (map (\<lambda>k. (k, json_of_pyval (dict_get d k PNone))) ks)
     = Some (d0 ++ (d |` set ks))"
proof (induction ks arbitrary: d0)
  case Nil
  then show ?case by simp
next
  case (Cons k ks)
  then obtain v where v: "d k = Some v" by auto
  have "d0(k \<mapsto> v) ++ (d |` set ks) = d0 ++ (d |` insert k (set ks))"
    using v by (auto simp: fun_eq_iff map_add_def restrict_map_def split: option.splits)
  with Cons v show ?case
    by (simp add: dict_get_def pyval_of_json_of_pyval)
qed

lemma dict_of_json_of_dict:
  assumes "set (keys d) = dom d"
  shows "dict_of_json (json_of_dict keys d) = Some d"
proof -
  have "dict_of_members Map.empty (map (\<lambda>k. (k, json_of_pyval (dict_get d k PNone))) (keys d))
          = Some (Map.empty ++ (d |` set (keys d)))"
    by (rule dict_of_members_keys) (simp add: assms)
  also have "Map.empty ++ (d |` set (keys d)) = d"
  proof (rule ext)
    fix k
    show "(Map.empty ++ (d |` set (keys d))) k = d k"
      by (cases "d k") (simp_all add: assms restrict_map_def domIff)
  qed
  finally show ?thesis by (simp add: json_of_dict_def)
qed

lemma dicts_of_json_of_dicts:
  "list_all (\<lambda>d. set (keys d) = dom d) ds \<Longrightarrow>
   dicts_of_json (map (json_of_dict keys) ds) = Some ds"
  by (induction ds) (simp_all add: dict_of_json_of_dict)

lemma store_of_json_of_store:
  assumes "lists_keys keys st"
  shows "store_of_json (json_of_store keys st) = Some st"
proof -
  from assms have
    "dicts_of_json (map (json_of_dict keys) (students st)) = Some (students st)"
    "dicts_of_json (map (json_of_dict keys) (teachers st)) = Some (teachers st)"
    "dicts_of_json (map (json_of_dict keys) (disciplines st)) = Some (disciplines st)"
    "dicts_of_json (map (json_of_dict keys) (grades st)) = Some (grades st)"
    "dicts_of_json (map (json_of_dict keys) (groups st)) = Some (groups st)"
    by (auto simp: lists_keys_def list_all_iff intro!: dicts_of_json_of_dicts)
  then show ?thesis
    by (simp add: store_of_json_def json_of_store_def collection_of_def)
qed

lemma json_load_json_dump: "lists_keys keys st \<Longrightarrow> json_load (json_dump keys st) = Inr st"
  by (simp add: json_load_def json_dump_def parse_json_encode store_of_json_of_store)

lemma lists_keys_seed: "lists_keys layout_keys seed"
  by (simp add: lists_keys_def seed_def layout_keys_def field_names_def student1_def
      student2_def teacher1_def discipline1_def discipline2_def group1_def Grade_to_dict_def)
    auto

text \<open>
  The text written for the empty store, and a string with Cyrillic text, a quote and a
  line feed: the bytes of the Cyrillic letter are written as they are.
\<close>

lemma json_dump_empty_store:
  "json_dump keys empty_store =
     ''{\<newline>  '' @ CHR 0x22 # ''students'' @ CHR 0x22 # '': [],\<newline>  ''
       @ CHR 0x22 # ''teachers'' @ CHR 0x22 # '': [],\<newline>  ''
       @ CHR 0x22 # ''disciplines'' @ CHR 0x22 # '': [],\<newline>  ''
       @ CHR 0x22 # ''grades'' @ CHR 0x22 # '': [],\<newline>  ''
       @ CHR 0x22 # ''groups'' @ CHR 0x22 # '': []\<newline>}''"
  by (simp add: json_dump_def json_of_store_def empty_store_def newline_indent_def
      encode_string_def escape_char_def numeral_2_eq_2)

lemma encode_string_example:
  "encode_string [CHR 0xD0, CHR 0x90, CHR 0x22, CHR 0x0A]
     = [CHR 0x22, CHR 0xD0, CHR 0x90, CHR 0x5C, CHR 0x22, CHR 0x5C, CHR ''n'', CHR 0x22]"
  by (simp add: encode_string_def escape_char_def)


section \<open>The claims\<close>

text \<open>
  C1. On a store whose records can be joined and whose name fields are text,
  \<open>findGrades(criteria)\<close> returns, in storage order, the deserialization of exactly those
  grade records that satisfy all active filter predicates: case-insensitive substring
  match of the student name in the resolved student's full name, the same for the
  discipline name, equality of the resolved discipline's semester with the criteria's,
  and case-insensitive equality of the grade's assessment type. A predicate whose
  criteria field is empty or unset is skipped, and a reference that matches no stored
  record is joined against the empty record. Case is ignored by comparing the lowercased
  strings, for any lowercasing function.
\<close>

theorem findGrades_returns_the_satisfying_grades:
  assumes "well_formed (data s)" and "textual (data s)"
  shows "\<exists>found. findGrades lower today criteria s = (Inr found, s)
     \<and> map Inr found
         = map (Grade_from_dict today)
             (filter (satisfies lower (data s) criteria) (grades (data s)))"
proof -
  from assms have ix: "indexable (students (data s))" "indexable (disciplines (data s))"
    and js: "list_all joinable (grades (data s))"
    and tx: "list_all (is_text ''fullName'') (students (data s))"
       "list_all (is_text ''name'') (disciplines (data s))"
       "list_all (is_text ''assessmentType'') (grades (data s))"
    by (auto simp: well_formed_def textual_def)
  obtain studs where st: "dict_by_id Map.empty (students (data s)) = Inr studs"
    using dict_by_id_indexable [OF ix(1)] by blast
  obtain discs where di: "dict_by_id Map.empty (disciplines (data s)) = Inr discs"
    using dict_by_id_indexable [OF ix(2)] by blast
  from findGrades_loop_filter [OF ix st di tx(1,2) js tx(3), of lower today criteria "[]"]
  show ?thesis using st di by (simp add: findGrades_def then_do_def)
qed

theorem findGrades_returns_the_satisfying_grades_witness:
  "well_formed (data dangling_repo) \<and> textual (data dangling_repo)
   \<and> findGrades ascii_lower ''2024-06-20'' example_criteria dangling_repo
       = (Inr [grade2], dangling_repo)"
proof -
  note wf = well_formed_dangling and tx = textual_dangling
  from findGrades_returns_the_satisfying_grades
         [OF wf tx, of ascii_lower "''2024-06-20''" example_criteria]
  obtain found where
    f: "findGrades ascii_lower ''2024-06-20'' example_criteria dangling_repo
          = (Inr found, dangling_repo)"
    and m: "map Inr found = map (Grade_from_dict ''2024-06-20'')
              (filter (satisfies ascii_lower (data dangling_repo) example_criteria)
                 (grades (data dangling_repo)))"
    by blast
  from m have "map Inr found = [Grade_from_dict ''2024-06-20'' (Grade_to_dict grade2)]"
    by (simp only: satisfies_dangling list.map)
  also have "\<dots> = [Inr grade2]" by (simp add: Grade_from_to_dict grade2_def)
  finally have "found = [grade2]" by auto
  with f wf tx show ?thesis by simp
qed

text \<open>
  C2. On a store whose records can be joined, \<open>findGrades(Search())\<close> with no filter set
  returns one Grade per stored grade record, each newly built by \<open>Grade.from_dict\<close> from
  its record, as many as the grades collection holds and in its order; the store is left
  as it was.
\<close>

theorem findGrades_without_filters_returns_all:
  assumes "well_formed (data s)"
  shows "\<exists>found. findGrades lower today Search_default s = (Inr found, s)
     \<and> map Inr found = map (Grade_from_dict today) (grades (data s))
     \<and> length found = length (grades (data s))"
proof -
  from findGrades_default_all [OF assms, of lower today] obtain found where
    f: "findGrades lower today Search_default s = (Inr found, s)"
    and m: "map Inr found = map (Grade_from_dict today) (grades (data s))"
    by blast
  from m have "length (map Inr found :: (error + Grade) list)
                 = length (map (Grade_from_dict today) (grades (data s)))"
    by simp
  then have "length found = length (grades (data s))" by simp
  with f m show ?thesis by blast
qed

theorem findGrades_without_filters_returns_all_witness:
  "well_formed (data seed_repo)
   \<and> findGrades ascii_lower ''2024-06-20'' Search_default seed_repo
       = (Inr [grade1, grade2, grade3], seed_repo)"
proof -
  have wf: "well_formed (data seed_repo)" using well_formed_seed by (simp add: seed_repo_def)
  from findGrades_without_filters_returns_all [OF wf, of ascii_lower "''2024-06-20''"]
  obtain found where
    f: "findGrades ascii_lower ''2024-06-20'' Search_default seed_repo = (Inr found, seed_repo)"
    and m: "map Inr found = map (Grade_from_dict ''2024-06-20'') (grades (data seed_repo))"
    by blast
  from m have "map Inr found = [Inr grade1, Inr grade2, Inr grade3 :: error + Grade]"
    by (simp only: from_dict_seed)
  then have "found = [grade1, grade2, grade3]" by auto
  with f wf show ?thesis by simp
qed

text \<open>
  C3. For every store state (the five collections may be empty, and strings may hold any
  bytes, non-ASCII text included) and every path: after \<open>saveToJSON(path)\<close>, a repository
  object that has those files, whatever data it holds itself, loads from the path
  without error and then holds the saved state. The file is the text that \<open>json.dump\<close>
  writes, read back by \<open>json.load\<close>; the records are dictionaries, of which \<open>keys\<close> lists the
  keys.
\<close>

theorem load_after_save_restores_the_state:
  assumes "lists_keys keys (data s)"
    and "files s0 = files (saveToJSON (json_dump keys) path s)"
  shows "loadFromJSON json_load path s0 = (Inr (), s0\<lparr>data := data s\<rparr>)
     \<and> data (snd (loadFromJSON json_load path s0)) = data s
     \<and> data (saveToJSON (json_dump keys) path s) = data s"
  using assms by (simp add: loadFromJSON_def saveToJSON_def json_load_json_dump)

theorem load_after_save_restores_the_state_witness:
  "lists_keys layout_keys (data (text_repo seed))
   \<and> data (snd (loadFromJSON json_load ''out.json''
        (reader (files (saveToJSON (json_dump layout_keys) ''out.json'' (text_repo seed))))))
       = seed
   \<and> lists_keys layout_keys (data (text_repo empty_store))
   \<and> data (snd (loadFromJSON json_load ''out.json''
        (reader (files (saveToJSON (json_dump layout_keys) ''out.json''
           (text_repo empty_store))))))
       = empty_store"
proof -
  have d: "data (text_repo st) = st" for st by (simp add: text_repo_def)
  have k: "lists_keys layout_keys (data (text_repo seed))"
    using lists_keys_seed by (simp add: d)
  have e: "lists_keys layout_keys (data (text_repo empty_store))"
    by (simp add: d lists_keys_def empty_store_def)
  have f: "files (reader fs) = fs" for fs by (simp add: reader_def)
  from load_after_save_restores_the_state [OF k f]
  have "data (snd (loadFromJSON json_load ''out.json''
          (reader (files (saveToJSON (json_dump layout_keys) ''out.json'' (text_repo seed))))))
        = data (text_repo seed)"
    by blast
  then have a:
    "data (snd (loadFromJSON json_load ''out.json''
        (reader (files (saveToJSON (json_dump layout_keys) ''out.json'' (text_repo seed))))))
       = seed"
    by (simp only: d)
  from load_after_save_restores_the_state [OF e f]
  have "data (snd (loadFromJSON json_load ''out.json''
          (reader (files (saveToJSON (json_dump layout_keys) ''out.json''
             (text_repo empty_store))))))
        = data (text_repo empty_store)"
    by blast
  then have b:
    "data (snd (loadFromJSON json_load ''out.json''
        (reader (files (saveToJSON (json_dump layout_keys) ''out.json''
           (text_repo empty_store))))))
       = empty_store"
    by (simp only: d)
  from k e a b show ?thesis by blast
qed

text \<open>
  C4. \<open>Teacher.editGrade\<close> on the seed store, for the grade of id 1, returns \<open>True\<close> and sets
  value and comment on the Grade object it fetched, but the store's record of id 1 keeps
  value 5 and its old comment, and it is the unchanged store that is written to the file.
\<close>

theorem editGrade_leaves_the_store_unchanged:
  "fst (editGrade dump lower today 1 3 ''retake'' seed_repo)
     = Inr (True, [grade1\<lparr>g_value := PInt 3, g_comment := PStr ''retake''\<rparr>, grade2, grade3])
   \<and> data (snd (editGrade dump lower today 1 3 ''retake'' seed_repo)) = seed
   \<and> fst (getGradeById today 1 (snd (editGrade dump lower today 1 3 ''retake'' seed_repo)))
       = Inr (Some grade1)
   \<and> g_value grade1 = PInt 5 \<and> g_comment grade1 = PStr ''Excellent''
   \<and> files (snd (editGrade dump lower today 1 3 ''retake'' seed_repo)) ''data.json''
       = Some (dump seed)"
proof -
  have wf: "well_formed (data seed_repo)" using well_formed_seed by (simp add: seed_repo_def)
  from findGrades_default_all [OF wf, of lower today] obtain found where
    f: "findGrades lower today Search_default seed_repo = (Inr found, seed_repo)"
    and m: "map Inr found = map (Grade_from_dict today) (grades (data seed_repo))"
    by blast
  from m have "map Inr found = [Inr grade1, Inr grade2, Inr grade3 :: error + Grade]"
    by (simp only: from_dict_seed)
  then have found: "found = [grade1, grade2, grade3]" by auto
  have e: "edit_fetched 1 3 ''retake'' [grade1, grade2, grade3]
             = Some [grade1\<lparr>g_value := PInt 3, g_comment := PStr ''retake''\<rparr>, grade2, grade3]"
    by (simp add: grade1_def)
  have r: "editGrade dump lower today 1 3 ''retake'' seed_repo
             = (Inr (True, [grade1\<lparr>g_value := PInt 3, g_comment := PStr ''retake''\<rparr>, grade2, grade3]),
                saveToJSON dump (filePath seed_repo) seed_repo)"
    using f found e by (simp add: editGrade_def)
  have l: "first_with_id (Grade_from_dict today) 1 (grades seed) = Inr (Some grade1)"
    by (simp add: seed_def then_do_def getitem_def Grade_from_to_dict grade1_def
        Grade_to_dict_def [of "\<lparr>g_id = PInt 1, g_value = PInt 5, g_assessmentType = PStr ''exam'',
          g_studentId = PInt 1, g_disciplineId = PInt 1, g_teacherId = PInt 1,
          g_comment = PStr ''Excellent'', g_date = PStr ''2024-06-15''\<rparr>"]
        Grade_from_dict_def Grade_init_def dict_get_def)
  have d: "data (saveToJSON dump (filePath seed_repo) seed_repo) = seed"
    "files (saveToJSON dump (filePath seed_repo) seed_repo) ''data.json'' = Some (dump seed)"
    by (simp_all add: saveToJSON_def seed_repo_def)
  have g: "g_value grade1 = PInt 5" "g_comment grade1 = PStr ''Excellent''"
    by (simp_all add: grade1_def)
  from r l d g show ?thesis by (simp add: getGradeById_def)
qed

text \<open>
  C5. On a store whose grade records all carry an id: if a grade with the id is present,
  \<open>removeGrade(id)\<close> returns true, erases every record of that id, which is exactly one
  record when the ids of the grade records differ from one another, and writes the new
  state to the repository's file; if no grade has the id, it returns false and leaves the
  store, the files and the trace of writes as they were.
\<close>

theorem removeGrade_erases_the_records_of_the_id:
  assumes "list_all (\<lambda>g. g ''id'' \<noteq> None) (grades (data s))"
  shows "(list_ex (has_grade_id i) (grades (data s)) \<longrightarrow>
            removeGrade dump i s =
              (Inr True,
               saveToJSON dump (filePath s)
                 (s\<lparr>data := (data s)\<lparr>grades :=
                      filter (\<lambda>g. \<not> has_grade_id i g) (grades (data s))\<rparr>\<rparr>)))
       \<and> (\<not> list_ex (has_grade_id i) (grades (data s)) \<longrightarrow>
            removeGrade dump i s = (Inr False, s))
       \<and> (list_ex (has_grade_id i) (grades (data s))
            \<and> distinct (map (\<lambda>g. g ''id'') (grades (data s))) \<longrightarrow>
            length (grades (data (snd (removeGrade dump i s)))) + 1
              = length (grades (data s)))"
proof -
  let ?gs = "grades (data s)"
  let ?kept = "filter (\<lambda>g. \<not> has_grade_id i g) ?gs"
  have w: "without_id i ?gs = Inr ?kept" using assms by (rule without_id_filter)
  have a: "removeGrade dump i s =
              (Inr True, saveToJSON dump (filePath s) (s\<lparr>data := (data s)\<lparr>grades := ?kept\<rparr>\<rparr>))"
    if "list_ex (has_grade_id i) ?gs"
    using that w filter_shorter [of "has_grade_id i" ?gs] by (simp add: removeGrade_def)
  have b: "removeGrade dump i s = (Inr False, s)" if "\<not> list_ex (has_grade_id i) ?gs"
    using that w filter_shorter [of "has_grade_id i" ?gs] filter_none [of "has_grade_id i" ?gs]
    by (simp add: removeGrade_def)
  have c: "length (grades (data (snd (removeGrade dump i s)))) + 1 = length ?gs"
    if "list_ex (has_grade_id i) ?gs" "distinct (map (\<lambda>g. g ''id'') ?gs)"
  proof -
    have "length (filter (\<lambda>g. g ''id'' \<noteq> Some (PInt i)) ?gs) + 1 = length ?gs"
      using that(2) that(1) unfolding has_grade_id_def by (rule filter_unique)
    then show ?thesis using a [OF that(1)] by (simp add: saveToJSON_def has_grade_id_def)
  qed
  from a b c show ?thesis by blast
qed

theorem removeGrade_erases_the_records_of_the_id_witness:
  "list_all (\<lambda>g. g ''id'' \<noteq> None) (grades (data seed_repo))
   \<and> list_ex (has_grade_id 1) (grades (data seed_repo))
   \<and> distinct (map (\<lambda>g. g ''id'') (grades (data seed_repo)))
   \<and> fst (removeGrade (\<lambda>d. d) 1 seed_repo) = Inr True
   \<and> grades (data (snd (removeGrade (\<lambda>d. d) 1 seed_repo)))
       = [Grade_to_dict grade2, Grade_to_dict grade3]
   \<and> files (snd (removeGrade (\<lambda>d. d) 1 seed_repo)) ''data.json''
       = Some (data (snd (removeGrade (\<lambda>d. d) 1 seed_repo)))
   \<and> length (grades (data (snd (removeGrade (\<lambda>d. d) 1 seed_repo)))) + 1
       = length (grades (data seed_repo))
   \<and> \<not> list_ex (has_grade_id 9999) (grades (data seed_repo))
   \<and> removeGrade (\<lambda>d. d) 9999 seed_repo = (Inr False, seed_repo)"
proof -
  have a: "list_all (\<lambda>g. g ''id'' \<noteq> None) (grades (data seed_repo))"
    by (simp add: seed_repo_def seed_def Grade_to_dict_def)
  have b: "list_ex (has_grade_id 1) (grades (data seed_repo))"
    by (simp add: seed_repo_def seed_def Grade_to_dict_def has_grade_id_def grade1_def)
  have c: "distinct (map (\<lambda>g. g ''id'') (grades (data seed_repo)))"
    by (simp add: seed_repo_def seed_def Grade_to_dict_def grade1_def grade2_def grade3_def)
  have d: "\<not> list_ex (has_grade_id 9999) (grades (data seed_repo))"
    by (simp add: seed_repo_def seed_def Grade_to_dict_def has_grade_id_def grade1_def
        grade2_def grade3_def)
  have k: "filter (\<lambda>g. \<not> has_grade_id 1 g) (grades (data seed_repo))
             = [Grade_to_dict grade2, Grade_to_dict grade3]"
    by (simp add: seed_repo_def seed_def Grade_to_dict_def has_grade_id_def grade1_def
        grade2_def grade3_def)
  note t = removeGrade_erases_the_records_of_the_id [OF a, of 1 "\<lambda>d. d"]
  from t b have "removeGrade (\<lambda>d. d) 1 seed_repo =
       (Inr True, saveToJSON (\<lambda>d. d) (filePath seed_repo)
          (seed_repo\<lparr>data := (data seed_repo)\<lparr>grades :=
             filter (\<lambda>g. \<not> has_grade_id 1 g) (grades (data seed_repo))\<rparr>\<rparr>))"
    by blast
  with k have r:
    "removeGrade (\<lambda>d. d) 1 seed_repo =
       (Inr True, saveToJSON (\<lambda>d. d) (filePath seed_repo)
          (seed_repo\<lparr>data := (data seed_repo)\<lparr>grades :=
             [Grade_to_dict grade2, Grade_to_dict grade3]\<rparr>\<rparr>))"
    by simp
  from t b c have l: "length (grades (data (snd (removeGrade (\<lambda>d. d) 1 seed_repo)))) + 1
              = length (grades (data seed_repo))"
    by blast
  from removeGrade_erases_the_records_of_the_id [OF a, of 9999 "\<lambda>d. d"] d
  have n: "removeGrade (\<lambda>d. d) 9999 seed_repo = (Inr False, seed_repo)"
    by simp
  have f: "filePath seed_repo = ''data.json''" by (simp add: seed_repo_def)
  from r f have
    "fst (removeGrade (\<lambda>d. d) 1 seed_repo) = Inr True"
    "grades (data (snd (removeGrade (\<lambda>d. d) 1 seed_repo)))
       = [Grade_to_dict grade2, Grade_to_dict grade3]"
    "files (snd (removeGrade (\<lambda>d. d) 1 seed_repo)) ''data.json''
        = Some (data (snd (removeGrade (\<lambda>d. d) 1 seed_repo)))"
    by (simp_all add: saveToJSON_def)
  with a b c d l n show ?thesis by blast
qed

text \<open>
  After two calls of \<open>addGrade\<close> with grades of id 1 the store holds two records of that
  id; \<open>removeGrade(1)\<close> returns true and removes both of them, not exactly one.
\<close>

theorem removeGrade_exactly_one_counterexample:
  "list_ex (has_grade_id 1) (grades (data twice_added))
   \<and> length (grades (data twice_added)) = 2
   \<and> fst (removeGrade (\<lambda>d. d) 1 twice_added) = Inr True
   \<and> length (grades (data (snd (removeGrade (\<lambda>d. d) 1 twice_added)))) = 0"
  by (simp add: twice_added_def addGrade_def saveToJSON_def empty_repo_def empty_store_def
      removeGrade_def then_do_def getitem_def Grade_to_dict_def grade1_def has_grade_id_def)

text \<open>
  C6. On a store whose grade ids are integers, \<open>nextGradeId()\<close> returns 1 when the grades
  collection is empty and the maximum of the existing grade ids plus 1 otherwise, and the
  id it returns is the id of no grade in the collection.
\<close>

theorem nextGradeId_is_max_plus_one:
  assumes "list_all has_int_id (grades (data s))"
  shows "fst (nextGradeId s) =
           Inr (if grades (data s) = [] then 1 else Max (set (int_ids (grades (data s)))) + 1)
       \<and> (\<exists>n. fst (nextGradeId s) = Inr n \<and> \<not> list_ex (has_grade_id n) (grades (data s)))"
proof (cases "grades (data s)")
  case Nil
  then show ?thesis by (simp add: nextGradeId_def)
next
  case (Cons g gs)
  from assms Cons have "has_int_id g" and r: "list_all has_int_id gs" by auto
  then obtain n where n: "g ''id'' = Some (PInt n)" using has_int_idD by blast
  have ids: "int_ids (grades (data s)) = n # int_ids gs" using Cons n by (simp add: int_ids_def)
  have m: "fold max (int_ids gs) n = Max (set (int_ids (grades (data s))))"
    unfolding ids by (rule Max.set_eq_fold [symmetric])
  have v: "fst (nextGradeId s) = Inr (Max (set (int_ids (grades (data s)))) + 1)"
    using Cons n max_id_fold [OF r, of n] m by (simp add: nextGradeId_def then_do_def getitem_def)
  have "\<not> list_ex (has_grade_id (Max (set (int_ids (grades (data s)))) + 1)) (grades (data s))"
  proof
    assume "list_ex (has_grade_id (Max (set (int_ids (grades (data s)))) + 1)) (grades (data s))"
    then obtain g' where g': "g' \<in> set (grades (data s))"
      "g' ''id'' = Some (PInt (Max (set (int_ids (grades (data s)))) + 1))"
      by (auto simp: list_ex_iff has_grade_id_def)
    then have "Max (set (int_ids (grades (data s)))) + 1 \<in> set (int_ids (grades (data s)))"
      by (rule int_ids_mem)
    then have "Max (set (int_ids (grades (data s)))) + 1 \<le> Max (set (int_ids (grades (data s))))"
      by (intro Max_ge) auto
    then show False by simp
  qed
  with v Cons show ?thesis by simp
qed

theorem nextGradeId_is_max_plus_one_witness:
  "list_all has_int_id (grades (data seed_repo)) \<and> fst (nextGradeId seed_repo) = Inr 4
   \<and> \<not> list_ex (has_grade_id 4) (grades (data seed_repo))
   \<and> list_all has_int_id (grades (data empty_repo)) \<and> fst (nextGradeId empty_repo) = Inr 1"
proof -
  have a: "list_all has_int_id (grades (data seed_repo))"
    by (simp add: seed_repo_def seed_def Grade_to_dict_def has_int_id_def grade1_def grade2_def
        grade3_def)
  have e: "list_all has_int_id (grades (data empty_repo))"
    by (simp add: empty_repo_def empty_store_def)
  have i: "int_ids (grades (data seed_repo)) = [1, 2, 3]"
    by (simp add: seed_repo_def seed_def Grade_to_dict_def int_ids_def grade1_def grade2_def
        grade3_def)
  have g: "grades (data seed_repo) \<noteq> []" by (simp add: seed_repo_def seed_def)
  have g': "grades (data empty_repo) = []" by (simp add: empty_repo_def empty_store_def)
  from nextGradeId_is_max_plus_one [OF a] nextGradeId_is_max_plus_one [OF e] a e i g g'
  show ?thesis by auto
qed

text \<open>
  C7. For each of the five entity kinds, \<open>from_dict\<close> fails with the missing-field error
  (\<open>KeyError\<close>), naming an absent required key, exactly when a required key is absent, and
  otherwise builds the object from the stored values as they are: an absent comment
  becomes the empty string, an absent date today's date, an absent member list the empty
  list, and no value is checked against a range or a format (any value of the grade's
  \<open>value\<close> field is accepted and stored).
\<close>

theorem from_dict_fails_exactly_on_a_missing_required_key:
  "Grade_from_dict today d = from_dict_spec Grade_required (Grade_fields today) d
   \<and> Student_from_dict d = from_dict_spec Student_required Student_fields d
   \<and> Teacher_from_dict d = from_dict_spec Teacher_required Teacher_fields d
   \<and> Discipline_from_dict d = from_dict_spec Discipline_required Discipline_fields d
   \<and> Group_from_dict d = from_dict_spec Group_required Group_fields d
   \<and> ((\<exists>g. Grade_from_dict today d = Inr g) = has_keys Grade_required d)
   \<and> ((\<exists>k. k \<in> set Grade_required \<and> d k = None \<and> Grade_from_dict today d = Inl (KeyError k))
        = (\<not> has_keys Grade_required d))
   \<and> ((\<exists>x. Student_from_dict d = Inr x) = has_keys Student_required d)
   \<and> ((\<exists>k. k \<in> set Student_required \<and> d k = None \<and> Student_from_dict d = Inl (KeyError k))
        = (\<not> has_keys Student_required d))
   \<and> ((\<exists>x. Teacher_from_dict d = Inr x) = has_keys Teacher_required d)
   \<and> ((\<exists>k. k \<in> set Teacher_required \<and> d k = None \<and> Teacher_from_dict d = Inl (KeyError k))
        = (\<not> has_keys Teacher_required d))
   \<and> ((\<exists>x. Discipline_from_dict d = Inr x) = has_keys Discipline_required d)
   \<and> ((\<exists>k. k \<in> set Discipline_required \<and> d k = None
            \<and> Discipline_from_dict d = Inl (KeyError k))
        = (\<not> has_keys Discipline_required d))
   \<and> ((\<exists>x. Group_from_dict d = Inr x) = has_keys Group_required d)
   \<and> ((\<exists>k. k \<in> set Group_required \<and> d k = None \<and> Group_from_dict d = Inl (KeyError k))
        = (\<not> has_keys Group_required d))
   \<and> (has_keys Grade_required d \<longrightarrow>
        (\<exists>g. Grade_from_dict today (d(''value'' \<mapsto> v)) = Inr g \<and> g_value g = v))"
proof -
  have "has_keys Grade_required (d(''value'' \<mapsto> v))" if "has_keys Grade_required d"
    using that by (simp add: has_keys_def Grade_required_def)
  then have "Grade_from_dict today (d(''value'' \<mapsto> v))
               = Inr (Grade_fields today (d(''value'' \<mapsto> v)))"
    if "has_keys Grade_required d"
    using that
    by (simp add: Grade_from_dict_spec from_dict_spec_def has_keys_def list_all_iff
        filter_empty_conv [THEN iffD2])
  moreover have "g_value (Grade_fields today (d(''value'' \<mapsto> v))) = v"
    by (simp add: Grade_fields_def dict_get_def)
  ultimately have "has_keys Grade_required d \<longrightarrow>
      (\<exists>g. Grade_from_dict today (d(''value'' \<mapsto> v)) = Inr g \<and> g_value g = v)"
    by simp
  then show ?thesis
    by (simp only: Grade_from_dict_spec Student_from_dict_spec Teacher_from_dict_spec
        Discipline_from_dict_spec Group_from_dict_spec from_dict_spec_succeeds
        from_dict_spec_fails simp_thms)
qed

theorem from_dict_fails_exactly_on_a_missing_required_key_witness:
  "has_keys Grade_required bare_grade
   \<and> Grade_from_dict ''2024-06-20'' bare_grade
       = Inr \<lparr>g_id = PInt 4, g_value = PInt 5, g_assessmentType = PStr ''credit'',
              g_studentId = PInt 1, g_disciplineId = PInt 1, g_teacherId = PInt 1,
              g_comment = PStr [], g_date = PStr ''2024-06-20''\<rparr>
   \<and> (\<exists>g. Grade_from_dict ''2024-06-20'' (bare_grade(''value'' \<mapsto> PInt 100)) = Inr g
          \<and> g_value g = PInt 100)
   \<and> \<not> has_keys Grade_required no_teacher_grade
   \<and> Grade_from_dict ''2024-06-20'' no_teacher_grade = Inl (KeyError ''teacherId'')
   \<and> (\<exists>g. Group_from_dict bare_group = Inr g \<and> gr_studentIds g = PList [])"
proof -
  have h: "has_keys Grade_required bare_grade"
    by (simp add: has_keys_def Grade_required_def bare_grade_def)
  have n: "\<not> has_keys Grade_required no_teacher_grade"
    by (simp add: has_keys_def Grade_required_def no_teacher_grade_def)
  have m: "filter (\<lambda>k. no_teacher_grade k = None) Grade_required = [''teacherId'']"
    by (simp add: Grade_required_def no_teacher_grade_def)
  have b: "filter (\<lambda>k. bare_grade k = None) Grade_required = []"
    by (simp add: Grade_required_def bare_grade_def)
  have gr: "filter (\<lambda>k. bare_group k = None) Group_required = []"
    by (simp add: Group_required_def bare_group_def)
  note t = from_dict_fails_exactly_on_a_missing_required_key
  from t [of "''2024-06-20''" bare_grade] b
  have 1: "Grade_from_dict ''2024-06-20'' bare_grade
         = Inr \<lparr>g_id = PInt 4, g_value = PInt 5, g_assessmentType = PStr ''credit'',
              g_studentId = PInt 1, g_disciplineId = PInt 1, g_teacherId = PInt 1,
              g_comment = PStr [], g_date = PStr ''2024-06-20''\<rparr>"
    by (simp add: from_dict_spec_def Grade_fields_def bare_grade_def dict_get_def or_default_def)
  from t [of "''2024-06-20''" bare_grade "PInt 100"] h
  have 2: "\<exists>g. Grade_from_dict ''2024-06-20'' (bare_grade(''value'' \<mapsto> PInt 100)) = Inr g
          \<and> g_value g = PInt 100"
    by blast
  from t [of "''2024-06-20''" no_teacher_grade] m
  have 3: "Grade_from_dict ''2024-06-20'' no_teacher_grade = Inl (KeyError ''teacherId'')"
    by (simp add: from_dict_spec_def)
  from t [of _ bare_group] gr
  have 4: "\<exists>g. Group_from_dict bare_group = Inr g \<and> gr_studentIds g = PList []"
    by (simp add: from_dict_spec_def Group_fields_def bare_group_def or_default_def)
  from h n 1 2 3 4 show ?thesis by blast
qed

text \<open>
  C8. For every group whose members are a list without a duplicate id and every student,
  \<open>addStudent(student)\<close> leaves a list without a duplicate id, which is the old list when
  the student's id is in it and the old list with the id appended otherwise; a second
  call with the same student changes nothing.
\<close>

theorem addStudent_keeps_the_members_distinct:
  assumes "gr_studentIds g = PList ids" and "distinct ids"
  shows "\<exists>g' ids'. addStudent st g = Inr g' \<and> gr_studentIds g' = PList ids' \<and> distinct ids'
       \<and> ids' = (if u_id st \<in> set ids then ids else ids @ [u_id st])
       \<and> addStudent st g' = Inr g'"
  using assms by (auto simp: addStudent_def)

theorem addStudent_keeps_the_members_distinct_witness:
  "gr_studentIds (Group_fields group1) = PList [PInt 1, PInt 2] \<and> distinct [PInt 1, PInt 2]
   \<and> addStudent (Student_fields student2) (Group_fields group1) = Inr (Group_fields group1)
   \<and> (\<exists>g'. addStudent (Student_fields student2\<lparr>u_id := PInt 99\<rparr>) (Group_fields group1) = Inr g'
          \<and> gr_studentIds g' = PList [PInt 1, PInt 2, PInt 99]
          \<and> addStudent (Student_fields student2\<lparr>u_id := PInt 99\<rparr>) g' = Inr g')"
proof -
  have a: "gr_studentIds (Group_fields group1) = PList [PInt 1, PInt 2]"
    by (simp add: Group_fields_def group1_def or_default_def)
  have d: "distinct [PInt 1, PInt 2]" by simp
  have u: "u_id (Student_fields student2) = PInt 2"
    by (simp add: Student_fields_def student2_def dict_get_def)
  from addStudent_keeps_the_members_distinct [OF a d, of "Student_fields student2"] u
  obtain g' where
    "addStudent (Student_fields student2) (Group_fields group1) = Inr g'"
    "gr_studentIds g' = PList [PInt 1, PInt 2]"
    by auto
  with a have 1: "addStudent (Student_fields student2) (Group_fields group1)
                    = Inr (Group_fields group1)"
    by (auto simp: addStudent_def u split: if_splits)
  from addStudent_keeps_the_members_distinct
         [OF a d, of "Student_fields student2\<lparr>u_id := PInt 99\<rparr>"]
  have 2: "\<exists>g'. addStudent (Student_fields student2\<lparr>u_id := PInt 99\<rparr>) (Group_fields group1) = Inr g'
          \<and> gr_studentIds g' = PList [PInt 1, PInt 2, PInt 99]
          \<and> addStudent (Student_fields student2\<lparr>u_id := PInt 99\<rparr>) g' = Inr g'"
    by auto
  from a d 1 2 show ?thesis by blast
qed

text \<open>
  C9. \<open>findGrades\<close>, \<open>nextGradeId\<close>, the four getters of whole collections and the four
  accessors by id return the repository, its five collections, the files and the trace of
  file writes as they were, whatever their result.
\<close>

theorem queries_leave_the_state_unchanged:
  "snd (findGrades lower today criteria s) = s
   \<and> data (snd (findGrades lower today criteria s)) = data s
   \<and> files (snd (findGrades lower today criteria s)) = files s
   \<and> writes (snd (findGrades lower today criteria s)) = writes s
   \<and> snd (nextGradeId s) = s
   \<and> snd (getStudents s) = s \<and> snd (getTeachers s) = s
   \<and> snd (getDisciplines s) = s \<and> snd (getGroups s) = s
   \<and> snd (getStudentById i s) = s \<and> snd (getDisciplineById i s) = s
   \<and> snd (getTeacherById i s) = s \<and> snd (getGradeById today i s) = s"
  by (simp add: findGrades_def nextGradeId_def getStudents_def getTeachers_def
      getDisciplines_def getGroups_def getStudentById_def getDisciplineById_def
      getTeacherById_def getGradeById_def)

text \<open>
  C10. \<open>addGrade(grade)\<close> appends exactly one record, the serialization of the grade, at the
  end of the grades collection and leaves the students, teachers, disciplines and groups
  collections unchanged; the new state is written to the repository's file.
\<close>

theorem addGrade_appends_one_record:
  "grades (data (addGrade dump g s)) = grades (data s) @ [Grade_to_dict g]
   \<and> length (grades (data (addGrade dump g s))) = length (grades (data s)) + 1
   \<and> students (data (addGrade dump g s)) = students (data s)
   \<and> teachers (data (addGrade dump g s)) = teachers (data s)
   \<and> disciplines (data (addGrade dump g s)) = disciplines (data s)
   \<and> groups (data (addGrade dump g s)) = groups (data s)
   \<and> filePath (addGrade dump g s) = filePath s
   \<and> files (addGrade dump g s) = (files s)(filePath s \<mapsto> dump (data (addGrade dump g s)))
   \<and> writes (addGrade dump g s) = writes s @ [filePath s]"
  by (simp add: addGrade_def saveToJSON_def)


end
